theory Spec2Isabelle
  imports Main "HOL-Library.Word"
begin

unbundle bit_operations_syntax

section \<open>Common data\<close>

type_synonym byte = "8 word"
type_synonym uint32 = "32 word"
type_synonym uint64 = "64 word"
type_synonym bytes = "byte list"

text \<open>
  A Go function either returns or panics. A panic aborts the process; the value kept
  with \<open>Panicked\<close> is the state that had been committed when the panic happened.
\<close>

datatype ('s, 'a) outcome = Panicked 's | Returned 'a 's

text \<open>
  The request and action states of \<open>common\<close>:
  \<open>Initial = 1\<close>, \<open>Pending = 2\<close>, \<open>Done = 3\<close>, \<open>Failed = 4\<close>.
\<close>

definition RequestStateInitial :: nat where "RequestStateInitial = 1"
definition RequestStatePending :: nat where "RequestStatePending = 2"
definition RequestStateDone :: nat where "RequestStateDone = 3"
definition RequestStateFailed :: nat where "RequestStateFailed = 4"

datatype role = RequestRoleHolder | RequestRoleSigner | RequestRoleObserver

text \<open>\<open>hex.EncodeToString\<close>: two lower-case hexadecimal digits for every byte.\<close>

definition hextable :: string where
  "hextable = ''0123456789abcdef''"

fun EncodeToString :: "bytes \<Rightarrow> string" where
  "EncodeToString [] = []"
| "EncodeToString (b # bs) =
     hextable ! unat (drop_bit 4 b) # hextable ! unat (b AND 15) # EncodeToString bs"

text \<open>\<open>binary.BigEndian.Uint64\<close> on a slice of eight bytes.\<close>

definition BigEndian_Uint64 :: "bytes \<Rightarrow> uint64" where
  "BigEndian_Uint64 bs = foldl (\<lambda>acc b. push_bit 8 acc OR ucast b) 0 bs"

section \<open>Keeper: network information\<close>

record Request =
  req_Id :: string
  req_Role :: role
  req_Curve :: byte
  req_Extra :: bytes
  req_CreatedAt :: nat

record NetworkInfo =
  ni_RequestId :: string
  ni_Chain :: byte
  ni_Fee :: uint64
  ni_Height :: uint64
  ni_Hash :: string
  ni_CreatedAt :: nat

record RPCBlock =
  blk_Height :: uint64
  blk_Confirmations :: int

datatype endpoint = BitcoinRPC | LitecoinRPC | EthereumRPC | PolygonRPC

text \<open>
  What the keeper code takes from outside \<open>src/\<close>: the chain codes of \<open>common\<close>,
  \<open>common.SafeCurveChain\<close>, and the block lookups \<open>bitcoin.RPCGetBlock\<close> and
  \<open>ethereum.RPCGetBlock\<close>, whose result is \<open>None\<close> when the call returns an error or
  no block.
\<close>

record keeper_env =
  SafeChainBitcoin :: byte
  SafeChainLitecoin :: byte
  SafeChainEthereum :: byte
  SafeChainPolygon :: byte
  SafeCurveChain :: "byte \<Rightarrow> byte"
  bitcoin_RPCGetBlock :: "endpoint \<Rightarrow> string \<Rightarrow> RPCBlock option"
  ethereum_RPCGetBlock :: "endpoint \<Rightarrow> string \<Rightarrow> RPCBlock option"

text \<open>
  Modelled from the spec: the keeper store, whose code is not under \<open>src/\<close>. It keeps,
  for every chain, the latest network-info record, and the state of every request. While
  \<open>ks_down\<close> holds, every database call returns an error.
\<close>

record keeper_store =
  ks_network_infos :: "byte \<rightharpoonup> NetworkInfo"
  ks_requests :: "string \<rightharpoonup> nat"
  ks_down :: bool

text \<open>
  Modelled from the spec: \<open>store.ReadLatestNetworkInfo\<close> returns the last record stored
  for the chain (or nil), or an error.
\<close>

definition ReadLatestNetworkInfo :: "keeper_store \<Rightarrow> byte \<Rightarrow> unit + NetworkInfo option" where
  "ReadLatestNetworkInfo s chain =
     (if ks_down s then Inl () else Inr (ks_network_infos s chain))"

text \<open>
  Modelled from the spec: \<open>store.WriteNetworkInfoFromRequest\<close> stores the record as the
  latest one of its chain and closes the request as done, in one database transaction.
\<close>

definition WriteNetworkInfoFromRequest ::
  "keeper_store \<Rightarrow> NetworkInfo \<Rightarrow> Request \<Rightarrow> unit + keeper_store" where
  "WriteNetworkInfoFromRequest s info req =
     (if ks_down s then Inl ()
      else Inr (s\<lparr>ks_network_infos := (ks_network_infos s)(ni_Chain info \<mapsto> info),
                   ks_requests := (ks_requests s)(req_Id req \<mapsto> RequestStateDone)\<rparr>))"

text \<open>
  Modelled from the spec: \<open>node.failRequest\<close> moves the request to \<open>Failed\<close>, writes
  nothing else and returns no transaction and the empty asset; it panics when the
  database fails.
\<close>

definition failRequest ::
  "keeper_store \<Rightarrow> Request \<Rightarrow> string \<Rightarrow> (keeper_store, string list \<times> string) outcome" where
  "failRequest s req assetId =
     (if ks_down s then Panicked s
      else Returned ([], assetId)
             (s\<lparr>ks_requests := (ks_requests s)(req_Id req \<mapsto> RequestStateFailed)\<rparr>))"

subsection \<open>The current keeper (\<open>writeNetworkInfo\<close> returning transactions)\<close>

definition bitcoinMinimumFeeRate :: uint64 where "bitcoinMinimumFeeRate = 1"
definition bitcoinMaximumFeeRate :: uint64 where "bitcoinMaximumFeeRate = 1000"

definition bitcoinParams :: "keeper_env \<Rightarrow> byte \<Rightarrow> endpoint option" where
  "bitcoinParams env chain =
     (if chain = SafeChainBitcoin env then Some BitcoinRPC
      else if chain = SafeChainLitecoin env then Some LitecoinRPC
      else None)"

definition ethereumParams :: "keeper_env \<Rightarrow> byte \<Rightarrow> endpoint option" where
  "ethereumParams env chain =
     (if chain = SafeChainEthereum env then Some EthereumRPC
      else if chain = SafeChainPolygon env then Some PolygonRPC
      else None)"

text \<open>
  The result of a verification is \<open>Some (Inr valid)\<close>, \<open>Some (Inl ())\<close> for a returned
  error, and \<open>None\<close> when \<open>bitcoinParams\<close> or \<open>ethereumParams\<close> panics.
\<close>

definition verifyBitcoinNetworkInfo ::
  "keeper_env \<Rightarrow> NetworkInfo \<Rightarrow> NetworkInfo option \<Rightarrow> (unit + bool) option" where
  "verifyBitcoinNetworkInfo env info old =
     (if length (ni_Hash info) \<noteq> 64 then Some (Inr False)
      else
        let checked =
          (if old \<noteq> None \<and> ni_Hash (the old) = ni_Hash info then
             (if ni_Height (the old) \<noteq> ni_Height info then Some (Inl ()) else Some (Inr True))
           else
             (case bitcoinParams env (ni_Chain info) of
                None \<Rightarrow> None
              | Some rpc \<Rightarrow>
                 (case bitcoin_RPCGetBlock env rpc (ni_Hash info) of
                    None \<Rightarrow> Some (Inl ())
                  | Some block \<Rightarrow>
                     if blk_Height block \<noteq> ni_Height info then Some (Inl ())
                     else if blk_Confirmations block = - 1 then Some (Inl ())
                     else Some (Inr True))))
        in
          (case checked of
             Some (Inr True) \<Rightarrow>
               if ni_Fee info < bitcoinMinimumFeeRate \<or> ni_Fee info > bitcoinMaximumFeeRate
               then Some (Inr False) else Some (Inr True)
           | other \<Rightarrow> other))"

definition verifyEthereumNetworkInfo ::
  "keeper_env \<Rightarrow> NetworkInfo \<Rightarrow> NetworkInfo option \<Rightarrow> (unit + bool) option" where
  "verifyEthereumNetworkInfo env info old =
     (if length (ni_Hash info) \<noteq> 66 then Some (Inr False)
      else if old \<noteq> None \<and> ni_Hash (the old) = ni_Hash info then
        (if ni_Height (the old) \<noteq> ni_Height info then Some (Inl ()) else Some (Inr True))
      else
        (case ethereumParams env (ni_Chain info) of
           None \<Rightarrow> None
         | Some rpc \<Rightarrow>
            (case ethereum_RPCGetBlock env rpc (ni_Hash info) of
               None \<Rightarrow> Some (Inl ())
             | Some block \<Rightarrow>
                if blk_Height block \<noteq> ni_Height info then Some (Inl ())
                else Some (Inr True))))"

definition parseNetworkInfo :: "Request \<Rightarrow> NetworkInfo" where
  "parseNetworkInfo req =
     \<lparr>ni_RequestId = req_Id req,
      ni_Chain = hd (req_Extra req),
      ni_Fee = BigEndian_Uint64 (take 8 (drop 1 (req_Extra req))),
      ni_Height = BigEndian_Uint64 (take 8 (drop 9 (req_Extra req))),
      ni_Hash = [],
      ni_CreatedAt = req_CreatedAt req\<rparr>"

text \<open>The end of \<open>writeNetworkInfo\<close>: the record is written, and a database error panics.\<close>

definition storeNetworkInfo ::
  "keeper_store \<Rightarrow> NetworkInfo \<Rightarrow> Request \<Rightarrow> (keeper_store, string list \<times> string) outcome" where
  "storeNetworkInfo s info req =
     (case WriteNetworkInfoFromRequest s info req of
        Inl _ \<Rightarrow> Panicked s
      | Inr s' \<Rightarrow> Returned ([], []) s')"

definition writeNetworkInfo ::
  "keeper_env \<Rightarrow> keeper_store \<Rightarrow> Request \<Rightarrow> (keeper_store, string list \<times> string) outcome" where
  "writeNetworkInfo env s req =
     (if req_Role req \<noteq> RequestRoleObserver then Panicked s
      else if length (req_Extra req) < 17 then failRequest s req []
      else
        let info = parseNetworkInfo req in
        (case ReadLatestNetworkInfo s (ni_Chain info) of
           Inl _ \<Rightarrow> Panicked s
         | Inr old \<Rightarrow>
            if old \<noteq> None \<and> ni_RequestId (the old) = req_Id req then failRequest s req []
            else if old \<noteq> None \<and> ni_Height (the old) > ni_Height info then failRequest s req []
            else if ni_Chain info \<noteq> SafeCurveChain env (req_Curve req) then Panicked s
            else if ni_Chain info = SafeChainBitcoin env \<or> ni_Chain info = SafeChainLitecoin env
            then
              (let info1 = info\<lparr>ni_Hash := EncodeToString (drop 17 (req_Extra req))\<rparr> in
               case verifyBitcoinNetworkInfo env info1 old of
                 None \<Rightarrow> Panicked s
               | Some (Inl _) \<Rightarrow> Panicked s
               | Some (Inr False) \<Rightarrow> failRequest s req []
               | Some (Inr True) \<Rightarrow> storeNetworkInfo s info1 req)
            else if ni_Chain info = SafeChainEthereum env \<or> ni_Chain info = SafeChainPolygon env
            then
              (let info1 = info\<lparr>ni_Hash := CHR ''0'' # CHR ''x'' # EncodeToString (drop 17 (req_Extra req))\<rparr> in
               case verifyEthereumNetworkInfo env info1 old of
                 None \<Rightarrow> Panicked s
               | Some (Inl _) \<Rightarrow> Panicked s
               | Some (Inr False) \<Rightarrow> failRequest s req []
               | Some (Inr True) \<Rightarrow> storeNetworkInfo s info1 req)
            else failRequest s req []))"

subsection \<open>The keeper of \<open>keeper/network.go\<close>\<close>

text \<open>
  \<open>keeper/network.go\<close> holds another \<open>writeNetworkInfo\<close>, with its own constants and
  its own \<open>verifyBitcoinNetworkInfo\<close>. Its functions return an error value: the result
  \<open>Some ()\<close> is a returned error, \<open>None\<close> is \<open>nil\<close>. Its definitions carry the
  prefix \<open>network_go\<close>. The request's \<open>Extra\<close> is a hexadecimal string there;
  \<open>req_Extra\<close> is what \<open>hex.DecodeString\<close> makes of it.
\<close>

definition network_go_bitcoinMinimumFeeRate :: uint64 where
  "network_go_bitcoinMinimumFeeRate = 10"
definition network_go_bitcoinMaximumFeeRate :: uint64 where
  "network_go_bitcoinMaximumFeeRate = 1000"

text \<open>
  \<open>store.FinishRequest\<close> (\<open>keeper/store/request.go\<close>): one \<open>UPDATE\<close> of the request
  from \<open>Initial\<close> to \<open>Done\<close>, run through \<open>execOne\<close>, which returns an error unless
  exactly one row changed.
\<close>

definition FinishRequest :: "keeper_store \<Rightarrow> string \<Rightarrow> (keeper_store, unit option) outcome" where
  "FinishRequest s rid =
     (if ks_down s then Returned (Some ()) s
      else if ks_requests s rid = Some RequestStateInitial
      then Returned None (s\<lparr>ks_requests := (ks_requests s)(rid \<mapsto> RequestStateDone)\<rparr>)
      else Returned (Some ()) s)"

text \<open>
  Modelled from the spec: \<open>store.ReadNetworkInfo\<close>, the lookup of \<open>keeper/network.go\<close>,
  returns the record stored for the chain (or nil), or an error.
\<close>

definition ReadNetworkInfo :: "keeper_store \<Rightarrow> byte \<Rightarrow> unit + NetworkInfo option" where
  "ReadNetworkInfo s chain =
     (if ks_down s then Inl () else Inr (ks_network_infos s chain))"

definition network_go_verifyBitcoinNetworkInfo :: "keeper_env \<Rightarrow> NetworkInfo \<Rightarrow> unit + bool" where
  "network_go_verifyBitcoinNetworkInfo env info =
     (if length (ni_Hash info) \<noteq> 64 then Inr False
      else
        (case bitcoin_RPCGetBlock env BitcoinRPC (ni_Hash info) of
           None \<Rightarrow> Inl ()
         | Some block \<Rightarrow>
            if blk_Height block \<noteq> ni_Height info then Inl ()
            else if ni_Fee info < network_go_bitcoinMinimumFeeRate
                    \<or> ni_Fee info > network_go_bitcoinMaximumFeeRate then Inr False
            else Inr True))"

definition network_go_writeNetworkInfo ::
  "keeper_env \<Rightarrow> keeper_store \<Rightarrow> Request \<Rightarrow> (keeper_store, unit option) outcome" where
  "network_go_writeNetworkInfo env s req =
     (if req_Role req \<noteq> RequestRoleObserver then Panicked s
      else if length (req_Extra req) < 17 then FinishRequest s (req_Id req)
      else
        let info = parseNetworkInfo req in
        (case ReadNetworkInfo s (ni_Chain info) of
           Inl _ \<Rightarrow> Returned (Some ()) s
         | Inr old \<Rightarrow>
            if old \<noteq> None \<and> ni_RequestId (the old) = req_Id req then FinishRequest s (req_Id req)
            else if old \<noteq> None \<and> ni_Height (the old) > ni_Height info
            then FinishRequest s (req_Id req)
            else if ni_Chain info = SafeChainBitcoin env then
              (let info1 = info\<lparr>ni_Hash := EncodeToString (drop 17 (req_Extra req))\<rparr> in
               case network_go_verifyBitcoinNetworkInfo env info1 of
                 Inl _ \<Rightarrow> Returned (Some ()) s
               | Inr False \<Rightarrow> FinishRequest s (req_Id req)
               | Inr True \<Rightarrow>
                  (case WriteNetworkInfoFromRequest s info1 req of
                     Inl _ \<Rightarrow> Returned (Some ()) s
                   | Inr s' \<Rightarrow> Returned None s'))
            else if ni_Chain info = SafeChainEthereum env then Panicked s
            else FinishRequest s (req_Id req)))"

subsection \<open>A sequence of network-info requests\<close>

text \<open>
  The keeper handles the requests one after the other. A panic stops it, and the store
  stays as the last completed request left it.
\<close>

fun writeNetworkInfos :: "keeper_env \<Rightarrow> keeper_store \<Rightarrow> Request list \<Rightarrow> keeper_store" where
  "writeNetworkInfos env s [] = s"
| "writeNetworkInfos env s (req # reqs) =
     (case writeNetworkInfo env s req of
        Panicked s' \<Rightarrow> s'
      | Returned r s' \<Rightarrow> writeNetworkInfos env s' reqs)"

fun network_go_writeNetworkInfos :: "keeper_env \<Rightarrow> keeper_store \<Rightarrow> Request list \<Rightarrow> keeper_store" where
  "network_go_writeNetworkInfos env s [] = s"
| "network_go_writeNetworkInfos env s (req # reqs) =
     (case network_go_writeNetworkInfo env s req of
        Panicked s' \<Rightarrow> s'
      | Returned r s' \<Rightarrow> network_go_writeNetworkInfos env s' reqs)"

text \<open>The stored height of a chain does not go down from store \<open>s\<close> to store \<open>s'\<close>.\<close>

definition height_not_lower :: "keeper_store \<Rightarrow> keeper_store \<Rightarrow> bool" where
  "height_not_lower s s' \<longleftrightarrow>
     (\<forall>chain old. ks_network_infos s chain = Some old \<longrightarrow>
        (\<exists>new. ks_network_infos s' chain = Some new \<and> ni_Height old \<le> ni_Height new))"

subsection \<open>The record a request carries, and the two stores a request can leave\<close>

text \<open>
  The record that \<open>writeNetworkInfo\<close> builds from the request: the parsed fields, and the
  hash as the chain family writes it.
\<close>

definition pushedNetworkInfo :: "keeper_env \<Rightarrow> Request \<Rightarrow> NetworkInfo" where
  "pushedNetworkInfo env req =
     (let info = parseNetworkInfo req in
      if ni_Chain info = SafeChainBitcoin env \<or> ni_Chain info = SafeChainLitecoin env
      then info\<lparr>ni_Hash := EncodeToString (drop 17 (req_Extra req))\<rparr>
      else if ni_Chain info = SafeChainEthereum env \<or> ni_Chain info = SafeChainPolygon env
      then info\<lparr>ni_Hash := CHR ''0'' # CHR ''x'' # EncodeToString (drop 17 (req_Extra req))\<rparr>
      else info)"

definition failed_store :: "keeper_store \<Rightarrow> Request \<Rightarrow> keeper_store" where
  "failed_store s req = s\<lparr>ks_requests := (ks_requests s)(req_Id req \<mapsto> RequestStateFailed)\<rparr>"

definition written_store :: "keeper_store \<Rightarrow> NetworkInfo \<Rightarrow> Request \<Rightarrow> keeper_store" where
  "written_store s info req =
     s\<lparr>ks_network_infos := (ks_network_infos s)(ni_Chain info \<mapsto> info),
       ks_requests := (ks_requests s)(req_Id req \<mapsto> RequestStateDone)\<rparr>"

text \<open>The store an outcome ends in, and the value it returns, if it returns.\<close>

fun final_store :: "('s, 'a) outcome \<Rightarrow> 's" where
  "final_store (Panicked s) = s"
| "final_store (Returned r s) = s"

fun returned :: "('s, 'a) outcome \<Rightarrow> 'a option" where
  "returned (Panicked s) = None"
| "returned (Returned r s) = Some r"

subsection \<open>A concrete keeper\<close>

text \<open>
  A keeper whose Bitcoin node knows every block hash at height 100 with three
  confirmations, a store with one open request, and a store that already holds a
  record of height 100.
\<close>

definition example_env :: keeper_env where
  "example_env =
     \<lparr>SafeChainBitcoin = 1, SafeChainLitecoin = 5, SafeChainEthereum = 2, SafeChainPolygon = 6,
      SafeCurveChain = (\<lambda>c. c),
      bitcoin_RPCGetBlock = (\<lambda>rpc h. Some \<lparr>blk_Height = 100, blk_Confirmations = 3\<rparr>),
      ethereum_RPCGetBlock = (\<lambda>rpc h. None)\<rparr>"

definition example_extra :: "byte \<Rightarrow> byte \<Rightarrow> byte \<Rightarrow> bytes" where
  "example_extra fee height h =
     1 # [0, 0, 0, 0, 0, 0, 0, fee] @ [0, 0, 0, 0, 0, 0, 0, height] @ replicate 32 h"

definition example_request :: "string \<Rightarrow> byte \<Rightarrow> byte \<Rightarrow> byte \<Rightarrow> Request" where
  "example_request rid fee height h =
     \<lparr>req_Id = rid, req_Role = RequestRoleObserver, req_Curve = 1,
      req_Extra = example_extra fee height h, req_CreatedAt = 7\<rparr>"

definition example_store :: keeper_store where
  "example_store =
     \<lparr>ks_network_infos = Map.empty,
      ks_requests = [''r1'' \<mapsto> RequestStateInitial],
      ks_down = False\<rparr>"

definition example_old :: NetworkInfo where
  "example_old =
     \<lparr>ni_RequestId = ''r0'', ni_Chain = 1, ni_Fee = 5, ni_Height = 100,
      ni_Hash = replicate 64 CHR ''c'', ni_CreatedAt = 3\<rparr>"

definition example_store_old :: keeper_store where
  "example_store_old =
     \<lparr>ks_network_infos = [1 \<mapsto> example_old],
      ks_requests = [''r0'' \<mapsto> RequestStateDone, ''r1'' \<mapsto> RequestStateInitial,
                     ''r2'' \<mapsto> RequestStateInitial],
      ks_down = False\<rparr>"

text \<open>The same keeper with a Bitcoin node that knows every block hash at height 101.\<close>

definition example_env_101 :: keeper_env where
  "example_env_101 =
     example_env\<lparr>bitcoin_RPCGetBlock :=
       (\<lambda>rpc h. Some \<lparr>blk_Height = 101, blk_Confirmations = 3\<rparr>)\<rparr>"

section \<open>Observer: the store of Bitcoin outputs\<close>

text \<open>
  A row of \<open>bitcoin_outputs\<close>. \<open>SpentBy\<close> and \<open>RawTransaction\<close> are
  \<open>sql.NullString\<close>: \<open>None\<close> is \<open>NULL\<close>.
\<close>

record Output =
  out_TransactionHash :: string
  out_Index :: uint32
  out_Address :: string
  out_Satoshi :: int
  out_Chain :: byte
  out_State :: nat
  out_SpentBy :: "string option"
  out_RawTransaction :: "string option"
  out_CreatedAt :: nat
  out_UpdatedAt :: nat

text \<open>The \<open>String\<close> field of a \<open>sql.NullString\<close>: empty when the value is \<open>NULL\<close>.\<close>

definition NullString_String :: "string option \<Rightarrow> string" where
  "NullString_String v = (case v of None \<Rightarrow> [] | Some x \<Rightarrow> x)"

text \<open>The observer's record of a transaction to sign and spend.\<close>

record Transaction =
  tx_TransactionHash :: string
  tx_RawTransaction :: string
  tx_Chain :: byte
  tx_Holder :: string
  tx_Signer :: string
  tx_Accountant :: string
  tx_State :: nat

text \<open>
  The observer store: the rows of \<open>bitcoin_outputs\<close> in storage order, the transaction
  approvals by hash, the raw transaction and the state of the recovery of every safe
  address, and the private key of every accountant. While \<open>os_down\<close> holds,
  \<open>BeginTx\<close> and every query return an error.
\<close>

record observer_store =
  os_outputs :: "Output list"
  os_transactions :: "string \<rightharpoonup> Transaction"
  os_recoveries :: "string \<rightharpoonup> string \<times> nat"
  os_accountants :: "string \<rightharpoonup> string"
  os_down :: bool

datatype error =
    StoreError
  | InsufficientSignatures nat
  | MalformedTransaction string string
  | RPCError string

text \<open>
  \<open>wire.MsgTx\<close> as the store uses it: the previous outpoints of its inputs (hash and
  index) and the values of its outputs. \<open>msgTx.TxHash().String()\<close> is \<open>mt_TxHash\<close>;
  \<open>bitcoin.MarshalWiredTransaction\<close> gives the bytes whose hexadecimal form is
  \<open>mt_Raw\<close>, or an error (\<open>None\<close>).
\<close>

record MsgTx =
  mt_TxHash :: string
  mt_Raw :: "string option"
  mt_TxIn :: "(string \<times> uint32) list"
  mt_TxOut :: "int list"

subsection \<open>Statements\<close>

text \<open>
  \<open>execOne\<close> runs one statement and returns an error unless exactly one row changed.
  The guarded update of both functions,
  \<^verbatim>\<open>UPDATE bitcoin_outputs SET state=?,spent_by=?,updated_at=? WHERE transaction_hash=?
  AND output_index=? AND state=? AND spent_by IS NULL\<close>, with the states \<open>Done\<close> and
  \<open>Initial\<close>:
\<close>

definition unassigned_at :: "string \<Rightarrow> uint32 \<Rightarrow> Output \<Rightarrow> bool" where
  "unassigned_at h i row \<longleftrightarrow>
     out_TransactionHash row = h \<and> out_Index row = i \<and>
     out_State row = RequestStateInitial \<and> out_SpentBy row = None"

definition assign_row :: "string \<Rightarrow> nat \<Rightarrow> Output \<Rightarrow> Output" where
  "assign_row spender now row =
     row\<lparr>out_State := RequestStateDone, out_SpentBy := Some spender, out_UpdatedAt := now\<rparr>"

definition execOne_update_spent ::
  "Output list \<Rightarrow> string \<Rightarrow> nat \<Rightarrow> string \<Rightarrow> uint32 \<Rightarrow> error + Output list" where
  "execOne_update_spent rows spender now h i =
     (if length (filter (unassigned_at h i) rows) \<noteq> 1 then Inl StoreError
      else Inr (map (\<lambda>row. if unassigned_at h i row then assign_row spender now row else row) rows))"

text \<open>
  Modelled from the spec: \<open>bitcoin_outputs\<close> has the primary key
  \<open>(transaction_hash, output_index)\<close>, so the \<open>INSERT\<close> of a row whose key is in the
  table is an error; a new row goes to the end of the table.
\<close>

definition same_key :: "string \<Rightarrow> uint32 \<Rightarrow> Output \<Rightarrow> bool" where
  "same_key h i row \<longleftrightarrow> out_TransactionHash row = h \<and> out_Index row = i"

definition execOne_insert :: "Output list \<Rightarrow> Output \<Rightarrow> error + Output list" where
  "execOne_insert rows utxo =
     (if list_ex (same_key (out_TransactionHash utxo) (out_Index utxo)) rows then Inl StoreError
      else Inr (rows @ [utxo]))"

text \<open>\<open>checkExistence\<close> of a row with the key.\<close>

definition checkExistence :: "Output list \<Rightarrow> string \<Rightarrow> uint32 \<Rightarrow> bool" where
  "checkExistence rows h i = list_ex (same_key h i) rows"

subsection \<open>\<open>WriteBitcoinUTXOIfNotExists\<close>\<close>

definition WriteBitcoinUTXOIfNotExists ::
  "observer_store \<Rightarrow> Output \<Rightarrow> (observer_store, error option) outcome" where
  "WriteBitcoinUTXOIfNotExists s utxo =
     (if os_down s then Returned (Some StoreError) s
      else if out_State utxo \<noteq> RequestStateInitial then Panicked s
      else if checkExistence (os_outputs s) (out_TransactionHash utxo) (out_Index utxo)
      then Returned None s
      else
        (case execOne_insert (os_outputs s) utxo of
           Inl e \<Rightarrow> Returned (Some e) s
         | Inr rows \<Rightarrow> Returned None (s\<lparr>os_outputs := rows\<rparr>)))"

subsection \<open>\<open>AssignBitcoinUTXOByRangeForTransaction\<close>\<close>

text \<open>
  The \<open>SELECT\<close> has \<open>LIMIT 1\<close> and no order: it gives the first row, in storage order,
  that is an unassigned output of the chain within the range or is spent by the
  transaction.
\<close>

definition in_range_or_spent_by :: "byte \<Rightarrow> uint64 \<Rightarrow> uint64 \<Rightarrow> string \<Rightarrow> Output \<Rightarrow> bool" where
  "in_range_or_spent_by chain lo hi h row \<longleftrightarrow>
     (out_Chain row = chain \<and> uint lo \<le> out_Satoshi row \<and> out_Satoshi row \<le> uint hi \<and>
      out_State row = RequestStateInitial)
     \<or> out_SpentBy row = Some h"

definition AssignBitcoinUTXOByRangeForTransaction ::
  "observer_store \<Rightarrow> nat \<Rightarrow> uint64 \<Rightarrow> uint64 \<Rightarrow> Transaction \<Rightarrow>
     (observer_store, Output option \<times> error option) outcome" where
  "AssignBitcoinUTXOByRangeForTransaction s now lo hi tx =
     (if os_down s then Returned (None, Some StoreError) s
      else
        (case find (in_range_or_spent_by (tx_Chain tx) lo hi (tx_TransactionHash tx)) (os_outputs s) of
           None \<Rightarrow> Returned (None, None) s
         | Some row \<Rightarrow>
            if NullString_String (out_SpentBy row) = tx_TransactionHash tx
            then Returned (Some row, None) s
            else
              (case execOne_update_spent (os_outputs s) (tx_TransactionHash tx) now
                      (out_TransactionHash row) (out_Index row) of
                 Inl e \<Rightarrow> Returned (None, Some e) s
               | Inr rows \<Rightarrow> Returned (Some row, None) (s\<lparr>os_outputs := rows\<rparr>))))"

subsection \<open>\<open>WriteBitcoinFeeOutput\<close>\<close>

text \<open>The first loop: every input of the fee transaction is assigned to it.\<close>

fun spend_inputs ::
  "Output list \<Rightarrow> string \<Rightarrow> nat \<Rightarrow> (string \<times> uint32) list \<Rightarrow> error + Output list" where
  "spend_inputs rows spender now [] = Inr rows"
| "spend_inputs rows spender now ((h, i) # ins) =
     (case execOne_update_spent rows spender now h i of
        Inl e \<Rightarrow> Inl e
      | Inr rows' \<Rightarrow> spend_inputs rows' spender now ins)"

text \<open>
  The second loop, from output \<open>i\<close> on: every output becomes a row; the first one is
  born \<open>Done\<close> and spent by the transaction that the fee is for.
\<close>

definition fee_output_row ::
  "string \<Rightarrow> string \<Rightarrow> string \<Rightarrow> Transaction \<Rightarrow> nat \<Rightarrow> nat \<Rightarrow> int \<Rightarrow> Output" where
  "fee_output_row hash raw receiver tx now i v =
     (let utxo =
        \<lparr>out_TransactionHash = hash, out_Index = of_nat i, out_Address = receiver,
         out_Satoshi = v, out_Chain = tx_Chain tx, out_State = RequestStateInitial,
         out_SpentBy = None, out_RawTransaction = Some raw,
         out_CreatedAt = now, out_UpdatedAt = now\<rparr>
      in if i = 0
         then utxo\<lparr>out_State := RequestStateDone, out_SpentBy := Some (tx_TransactionHash tx)\<rparr>
         else utxo)"

fun insert_outputs ::
  "Output list \<Rightarrow> string \<Rightarrow> string \<Rightarrow> string \<Rightarrow> Transaction \<Rightarrow> nat \<Rightarrow> nat \<Rightarrow> int list \<Rightarrow>
     error + Output list" where
  "insert_outputs rows hash raw receiver tx now i [] = Inr rows"
| "insert_outputs rows hash raw receiver tx now i (v # vs) =
     (case execOne_insert rows (fee_output_row hash raw receiver tx now i v) of
        Inl e \<Rightarrow> Inl e
      | Inr rows' \<Rightarrow> insert_outputs rows' hash raw receiver tx now (Suc i) vs)"

definition WriteBitcoinFeeOutput ::
  "observer_store \<Rightarrow> nat \<Rightarrow> MsgTx \<Rightarrow> string \<Rightarrow> Transaction \<Rightarrow>
     (observer_store, error option) outcome" where
  "WriteBitcoinFeeOutput s now msgTx receiver tx =
     (if os_down s then Returned (Some StoreError) s
      else
        (case mt_Raw msgTx of
           None \<Rightarrow> Returned (Some StoreError) s
         | Some raw \<Rightarrow>
            (case spend_inputs (os_outputs s) (mt_TxHash msgTx) now (mt_TxIn msgTx) of
               Inl e \<Rightarrow> Returned (Some e) s
             | Inr rows \<Rightarrow>
                (case insert_outputs rows (mt_TxHash msgTx) raw receiver tx now 0 (mt_TxOut msgTx) of
                   Inl e \<Rightarrow> Returned (Some e) s
                 | Inr rows' \<Rightarrow> Returned None (s\<lparr>os_outputs := rows'\<rparr>)))))"

subsection \<open>Runs of the three writers\<close>

datatype output_write =
    WriteUTXO Output
  | AssignByRange nat uint64 uint64 Transaction
  | WriteFeeOutput nat MsgTx string Transaction

fun write_outputs :: "observer_store \<Rightarrow> output_write \<Rightarrow> observer_store" where
  "write_outputs s (WriteUTXO utxo) = final_store (WriteBitcoinUTXOIfNotExists s utxo)"
| "write_outputs s (AssignByRange now lo hi tx) =
     final_store (AssignBitcoinUTXOByRangeForTransaction s now lo hi tx)"
| "write_outputs s (WriteFeeOutput now msgTx receiver tx) =
     final_store (WriteBitcoinFeeOutput s now msgTx receiver tx)"

fun run_writes :: "observer_store \<Rightarrow> output_write list \<Rightarrow> observer_store" where
  "run_writes s [] = s"
| "run_writes s (w # ws) = run_writes (write_outputs s w) ws"

text \<open>
  From row \<open>r\<close> to row \<open>r'\<close> the assignment only goes forward: the row is as it
  was, or it was \<open>Initial\<close> with no \<open>SpentBy\<close> and is now the same row, \<open>Done\<close>
  and with a \<open>SpentBy\<close>, as the guarded update writes it.
\<close>

definition assigned_forward :: "Output \<Rightarrow> Output \<Rightarrow> bool" where
  "assigned_forward r r' \<longleftrightarrow>
     r' = r \<or>
     (out_State r = RequestStateInitial \<and> out_SpentBy r = None \<and> out_SpentBy r' \<noteq> None \<and>
      r' = r\<lparr>out_State := RequestStateDone, out_SpentBy := out_SpentBy r',
              out_UpdatedAt := out_UpdatedAt r'\<rparr>)"

text \<open>Every row of \<open>rows\<close> is still there in \<open>rows'\<close>, at its place, moved forward only.\<close>

definition rows_forward :: "Output list \<Rightarrow> Output list \<Rightarrow> bool" where
  "rows_forward rows rows' \<longleftrightarrow>
     length rows \<le> length rows' \<and>
     (\<forall>n < length rows. assigned_forward (rows ! n) (rows' ! n))"

subsection \<open>A concrete store of outputs\<close>

definition example_utxo :: Output where
  "example_utxo =
     \<lparr>out_TransactionHash = ''f0'', out_Index = 0, out_Address = ''accountant'',
      out_Satoshi = 50000, out_Chain = 1, out_State = RequestStateInitial,
      out_SpentBy = None, out_RawTransaction = None, out_CreatedAt = 1, out_UpdatedAt = 1\<rparr>"

definition example_outputs :: observer_store where
  "example_outputs =
     \<lparr>os_outputs = [example_utxo], os_transactions = Map.empty,
      os_recoveries = Map.empty, os_accountants = Map.empty, os_down = False\<rparr>"

definition example_transaction :: "string \<Rightarrow> Transaction" where
  "example_transaction h =
     \<lparr>tx_TransactionHash = h, tx_RawTransaction = ''70736274'', tx_Chain = 1,
      tx_Holder = ''holder'', tx_Signer = ''signer'', tx_Accountant = ''accountant'',
      tx_State = RequestStateInitial\<rparr>"

definition example_fee_tx :: MsgTx where
  "example_fee_tx =
     \<lparr>mt_TxHash = ''fee1'', mt_Raw = Some ''0200'', mt_TxIn = [(''f0'', 0)],
      mt_TxOut = [1000, 48000]\<rparr>"

section \<open>Observer: signatures and broadcast\<close>

subsection \<open>Strings and bytes\<close>

text \<open>\<open>strings.Contains\<close>.\<close>

fun strings_Contains :: "string \<Rightarrow> string \<Rightarrow> bool" where
  "strings_Contains [] sub = (sub = [])"
| "strings_Contains (c # cs) sub =
     (take (length sub) (c # cs) = sub \<or> strings_Contains cs sub)"



subsection \<open>What the observer reads from the keeper store\<close>

record Safe =
  safe_Holder :: string
  safe_Chain :: byte
  safe_Signer :: string
  safe_Observer :: string
  safe_Address :: string
  safe_Path :: bytes

record SignatureRequest =
  sr_TransactionHash :: string
  sr_InputIndex :: nat
  sr_Signature :: "string option"
  sr_State :: nat

text \<open>
  The tables of the keeper store that the observer reads: the safes by holder, the
  signature requests, and the script of every Bitcoin output of a safe.
\<close>

record keeper_tables =
  kt_safes :: "string \<rightharpoonup> Safe"
  kt_signature_requests :: "SignatureRequest list"
  kt_scripts :: "string \<times> uint32 \<rightharpoonup> bytes"
  kt_down :: bool

text \<open>
  \<open>store.ReadSafe\<close> (\<open>keeper/store/safe.go\<close>): the safe of the holder, \<open>nil\<close> when
  there is no row, or an error.
\<close>

definition ReadSafe :: "keeper_tables \<Rightarrow> string \<Rightarrow> error + Safe option" where
  "ReadSafe k holder = (if kt_down k then Inl StoreError else Inr (kt_safes k holder))"


subsection \<open>The observer node\<close>

text \<open>
  The state of the observer: its store, the keeper store it reads, and the raw
  transactions it has handed to \<open>RPCSendRawTransaction\<close>, oldest first.
\<close>

record observer_node =
  on_store :: observer_store
  on_keeper :: keeper_tables
  on_sent :: "string list"

record SafeTransaction =
  st_TxHash :: string
  st_Raw :: string

text \<open>
  What the observer code takes from outside \<open>src/\<close>: the chain codes of \<open>common\<close>;
  \<open>bitcoin.RPCSendRawTransaction\<close>, whose answer is the text of an error (\<open>Inl\<close>) or a
  transaction id (\<open>Inr\<close>); \<open>ethereum.UnmarshalSafeTransaction\<close>, with
  \<open>st_Raw\<close> the hexadecimal form of \<open>st.Marshal()\<close>; and
  \<open>ethereum.CheckTransactionPartiallySignedBy\<close>.
\<close>

record observer_env =
  oe_SafeChainBitcoin :: byte
  oe_SafeChainLitecoin :: byte
  oe_SafeChainEthereum :: byte
  oe_SafeChainPolygon :: byte
  RPCSendRawTransaction :: "endpoint \<Rightarrow> string \<Rightarrow> string + string"
  UnmarshalSafeTransaction :: "bytes \<Rightarrow> SafeTransaction option"
  CheckTransactionPartiallySignedBy :: "string \<Rightarrow> string \<Rightarrow> bool"

subsection \<open>\<open>bitcoinBroadcastTransaction\<close>\<close>

definition observer_bitcoinParams :: "observer_env \<Rightarrow> byte \<Rightarrow> endpoint option" where
  "observer_bitcoinParams env chain =
     (if chain = oe_SafeChainBitcoin env then Some BitcoinRPC
      else if chain = oe_SafeChainLitecoin env then Some LitecoinRPC
      else None)"

text \<open>The function with the parameters \<open>(hash, raw, chain)\<close>.\<close>

definition bitcoinBroadcastTransaction ::
  "observer_env \<Rightarrow> observer_node \<Rightarrow> string \<Rightarrow> bytes \<Rightarrow> byte \<Rightarrow>
     (observer_node, error option) outcome" where
  "bitcoinBroadcastTransaction env node hash raw chain =
     (case observer_bitcoinParams env chain of
        None \<Rightarrow> Panicked node
      | Some rpc \<Rightarrow>
         (let node' = node\<lparr>on_sent := on_sent node @ [EncodeToString raw]\<rparr> in
          case RPCSendRawTransaction env rpc (EncodeToString raw) of
            Inl err \<Rightarrow>
              if strings_Contains err ''Transaction already in block chain''
              then Returned None node'
              else Returned (Some (RPCError err)) node'
          | Inr txid \<Rightarrow>
              if txid \<noteq> hash then Returned (Some (MalformedTransaction hash txid)) node'
              else Returned None node'))"

text \<open>
  The function with the parameters \<open>(hash, raw)\<close>, which
  \<open>bitcoinAccountantSignTransaction\<close> calls; it sends to the Bitcoin node of the
  configuration.
\<close>

definition bitcoinBroadcastTransaction_hash_raw ::
  "observer_env \<Rightarrow> observer_node \<Rightarrow> string \<Rightarrow> bytes \<Rightarrow> (observer_node, error option) outcome" where
  "bitcoinBroadcastTransaction_hash_raw env node hash raw =
     (let node' = node\<lparr>on_sent := on_sent node @ [EncodeToString raw]\<rparr> in
      case RPCSendRawTransaction env BitcoinRPC (EncodeToString raw) of
        Inl err \<Rightarrow> Returned (Some (RPCError err)) node'
      | Inr txid \<Rightarrow>
          if txid \<noteq> hash then Returned (Some (MalformedTransaction hash txid)) node'
          else Returned None node')"

subsection \<open>\<open>keeperVerifyEthereumTransactionSignatures\<close>\<close>

text \<open>
  Modelled from the spec: \<open>store.ReadTransactionApproval\<close> gives the transaction with
  the hash, \<open>nil\<close> when there is none, or an error.
\<close>

definition ReadTransactionApproval :: "observer_store \<Rightarrow> string \<Rightarrow> error + Transaction option" where
  "ReadTransactionApproval s h = (if os_down s then Inl StoreError else Inr (os_transactions s h))"

text \<open>
  Modelled from the spec: \<open>store.FinishTransactionSignatures\<close> finalizes the
  transaction: it stores the raw transaction with all signatures and moves the
  transaction to \<open>Done\<close>; an error when the database fails or there is no such
  transaction.
\<close>

definition FinishTransactionSignatures ::
  "observer_store \<Rightarrow> string \<Rightarrow> string \<Rightarrow> error + observer_store" where
  "FinishTransactionSignatures s h raw =
     (if os_down s then Inl StoreError
      else
        (case os_transactions s h of
           None \<Rightarrow> Inl StoreError
         | Some tx \<Rightarrow>
            Inr (s\<lparr>os_transactions := (os_transactions s)
                     (h \<mapsto> tx\<lparr>tx_RawTransaction := raw, tx_State := RequestStateDone\<rparr>)\<rparr>)))"

text \<open>
  Modelled from the spec: \<open>store.UpdateRecoveryState\<close> moves the recovery of the safe
  address to the state, and stores the raw transaction when one is given; an address
  without a recovery is left alone; an error when the database fails.
\<close>

definition UpdateRecoveryState ::
  "observer_store \<Rightarrow> string \<Rightarrow> string \<Rightarrow> nat \<Rightarrow> error + observer_store" where
  "UpdateRecoveryState s address raw st =
     (if os_down s then Inl StoreError
      else
        (case os_recoveries s address of
           None \<Rightarrow> Inr s
         | Some (old_raw, old_state) \<Rightarrow>
            Inr (s\<lparr>os_recoveries := (os_recoveries s)
                     (address \<mapsto> (if raw = [] then old_raw else raw, st))\<rparr>)))"

text \<open>The number of the keys, in the order of the source, that have signed.\<close>

definition count_signed :: "observer_env \<Rightarrow> string \<Rightarrow> string list \<Rightarrow> nat" where
  "count_signed env raw pubs =
     fold (\<lambda>pub sigs. if CheckTransactionPartiallySignedBy env raw pub then sigs + 1 else sigs)
       pubs 0"

definition keeperVerifyEthereumTransactionSignatures ::
  "observer_env \<Rightarrow> observer_node \<Rightarrow> bytes \<Rightarrow> (observer_node, error option) outcome" where
  "keeperVerifyEthereumTransactionSignatures env node extra =
     (case UnmarshalSafeTransaction env extra of
        None \<Rightarrow> Panicked node
      | Some st \<Rightarrow>
         (case ReadTransactionApproval (on_store node) (st_TxHash st) of
            Inl e \<Rightarrow> Returned (Some e) node
          | Inr None \<Rightarrow> Panicked node
          | Inr (Some tx) \<Rightarrow>
             if tx_State tx \<ge> RequestStateDone then Returned None node
             else
               (case ReadSafe (on_keeper node) (tx_Holder tx) of
                  Inl e \<Rightarrow> Returned (Some e) node
                | Inr None \<Rightarrow> Panicked node
                | Inr (Some safe) \<Rightarrow>
                   if safe_Chain safe \<noteq> oe_SafeChainEthereum env \<and>
                      safe_Chain safe \<noteq> oe_SafeChainPolygon env then Panicked node
                   else
                     (let sigs = count_signed env (st_Raw st)
                                   [safe_Holder safe, safe_Observer safe, safe_Signer safe] in
                      if sigs < 2 then Returned (Some (InsufficientSignatures sigs)) node
                      else
                        (case UpdateRecoveryState (on_store node) (safe_Address safe) []
                                RequestStateDone of
                           Inl e \<Rightarrow> Returned (Some e) node
                         | Inr s1 \<Rightarrow>
                            (case FinishTransactionSignatures s1 (st_TxHash st) (st_Raw st) of
                               Inl e \<Rightarrow> Returned (Some e) (node\<lparr>on_store := s1\<rparr>)
                             | Inr s2 \<Rightarrow> Returned None (node\<lparr>on_store := s2\<rparr>)))))))"

subsection \<open>A concrete observer\<close>

text \<open>
  An Ethereum safe whose transaction \<open>0xt1\<close> waits for its signatures, and a raw
  transaction that the holder and the signer have signed and the observer has not.
\<close>

definition example_safe :: Safe where
  "example_safe =
     \<lparr>safe_Holder = ''holder'', safe_Chain = 2, safe_Signer = ''signer'',
      safe_Observer = ''observer'', safe_Address = ''0xsafe'', safe_Path = [0, 0, 0, 0]\<rparr>"

definition example_node :: observer_node where
  "example_node =
     \<lparr>on_store =
        \<lparr>os_outputs = [],
         os_transactions = [''0xt1'' \<mapsto> (example_transaction ''0xt1'')\<lparr>tx_Chain := 2\<rparr>],
         os_recoveries = [''0xsafe'' \<mapsto> ([], RequestStatePending)],
         os_accountants = Map.empty, os_down = False\<rparr>,
      on_keeper =
        \<lparr>kt_safes = [''holder'' \<mapsto> example_safe], kt_signature_requests = [],
         kt_scripts = Map.empty, kt_down = False\<rparr>,
      on_sent = []\<rparr>"

definition example_observer_env :: "string list \<Rightarrow> (string + string) \<Rightarrow> observer_env" where
  "example_observer_env signers answer =
     \<lparr>oe_SafeChainBitcoin = 1, oe_SafeChainLitecoin = 5, oe_SafeChainEthereum = 2,
      oe_SafeChainPolygon = 6,
      RPCSendRawTransaction = (\<lambda>rpc raw. answer),
      UnmarshalSafeTransaction = (\<lambda>extra. Some \<lparr>st_TxHash = ''0xt1'', st_Raw = ''f8aa''\<rparr>),
      CheckTransactionPartiallySignedBy = (\<lambda>raw pub. raw = ''f8aa'' \<and> pub \<in> set signers)\<rparr>"

section \<open>Observer: combining the signatures of a Bitcoin transaction\<close>

subsection \<open>Partially signed transactions\<close>

text \<open>
  What the code reads of a \<open>bitcoin.PartiallySignedTransaction\<close>: the inputs and outputs
  of the unsigned transaction, every input with its previous outpoint, its sequence and
  its witness, and for every input the partial signatures.
\<close>

record PartialSig =
  ps_PubKey :: bytes
  ps_Signature :: bytes

record PInput =
  pin_PartialSigs :: "PartialSig list"

record TxIn =
  in_PreviousOutPoint :: "string \<times> uint32"
  in_Sequence :: uint32
  in_Witness :: "bytes list"

record PSBT =
  psbt_TxIn :: "TxIn list"
  psbt_TxOut :: "(int \<times> bytes) list"
  psbt_Inputs :: "PInput list"





definition signed_at :: "(nat \<rightharpoonup> bytes) \<Rightarrow> nat \<Rightarrow> bytes" where
  "signed_at responses idx = (case responses idx of None \<Rightarrow> [] | Some b \<Rightarrow> b)"



subsection \<open>\<open>bitcoinAccountantSignTransaction\<close>\<close>




subsection \<open>\<open>keeperCombineBitcoinTransactionSignatures\<close>\<close>





subsection \<open>What the claim asks of an input\<close>


text \<open>
  Both PSBTs have a partial signature for input \<open>idx\<close>, the first one of the holder's
  PSBT is made with the key \<open>holder\<close>, the first one of the signer's PSBT is made with
  the key \<open>signer\<close> and is the stored signature response for the input.
\<close>

definition partial_sigs_match ::
  "PSBT \<Rightarrow> PSBT \<Rightarrow> string \<Rightarrow> string \<Rightarrow> (nat \<rightharpoonup> bytes) \<Rightarrow> nat \<Rightarrow> bool" where
  "partial_sigs_match spsbt hpsbt holder signer responses idx \<longleftrightarrow>
     idx < length (psbt_Inputs hpsbt) \<and> pin_PartialSigs (psbt_Inputs hpsbt ! idx) \<noteq> [] \<and>
     idx < length (psbt_Inputs spsbt) \<and> pin_PartialSigs (psbt_Inputs spsbt ! idx) \<noteq> [] \<and>
     EncodeToString (ps_PubKey (hd (pin_PartialSigs (psbt_Inputs hpsbt ! idx)))) = holder \<and>
     EncodeToString (ps_PubKey (hd (pin_PartialSigs (psbt_Inputs spsbt ! idx)))) = signer \<and>
     ps_Signature (hd (pin_PartialSigs (psbt_Inputs spsbt ! idx))) = signed_at responses idx"





subsection \<open>A concrete Bitcoin transaction\<close>










section \<open>Keeper: replayed outputs\<close>











section \<open>Keeper: revoking a transaction\<close>
















section \<open>Verified properties\<close>

subsection \<open>Network information: what one request does\<close>

lemma failRequest_Returned:
  "failRequest s req a = Returned r s' \<Longrightarrow>
   \<not> ks_down s \<and> r = ([], a) \<and> s' = failed_store s req"
  by (auto simp: failRequest_def failed_store_def split: if_splits)

lemma failRequest_up:
  "\<not> ks_down s \<Longrightarrow> failRequest s req a = Returned ([], a) (failed_store s req)"
  by (simp add: failRequest_def failed_store_def)

lemma storeNetworkInfo_Returned:
  "storeNetworkInfo s info req = Returned r s' \<Longrightarrow>
   \<not> ks_down s \<and> r = ([], []) \<and> s' = written_store s info req"
  by (auto simp: storeNetworkInfo_def WriteNetworkInfoFromRequest_def written_store_def
      split: if_splits sum.splits)

lemma storeNetworkInfo_up:
  "\<not> ks_down s \<Longrightarrow> storeNetworkInfo s info req = Returned ([], []) (written_store s info req)"
  by (simp add: storeNetworkInfo_def WriteNetworkInfoFromRequest_def written_store_def)

lemma verifyBitcoinNetworkInfo_True:
  "verifyBitcoinNetworkInfo env info old = Some (Inr True) \<Longrightarrow>
   length (ni_Hash info) = 64 \<and>
   bitcoinMinimumFeeRate \<le> ni_Fee info \<and> ni_Fee info \<le> bitcoinMaximumFeeRate \<and>
   (\<forall>od. old = Some od \<longrightarrow> ni_Hash od = ni_Hash info \<longrightarrow> ni_Height od = ni_Height info)"
  by (auto simp: verifyBitcoinNetworkInfo_def Let_def
      split: if_splits option.splits sum.splits bool.splits)

lemma verifyEthereumNetworkInfo_True:
  "verifyEthereumNetworkInfo env info old = Some (Inr True) \<Longrightarrow>
   length (ni_Hash info) = 66 \<and>
   (\<forall>od. old = Some od \<longrightarrow> ni_Hash od = ni_Hash info \<longrightarrow> ni_Height od = ni_Height info)"
  by (auto simp: verifyEthereumNetworkInfo_def Let_def
      split: if_splits option.splits sum.splits bool.splits)

lemma pushed_chain: "ni_Chain (pushedNetworkInfo env req) = ni_Chain (parseNetworkInfo req)"
  by (simp add: pushedNetworkInfo_def Let_def)

lemma pushed_height: "ni_Height (pushedNetworkInfo env req) = ni_Height (parseNetworkInfo req)"
  by (simp add: pushedNetworkInfo_def Let_def)

lemma pushed_fee: "ni_Fee (pushedNetworkInfo env req) = ni_Fee (parseNetworkInfo req)"
  by (simp add: pushedNetworkInfo_def Let_def)

lemma pushed_request: "ni_RequestId (pushedNetworkInfo env req) = req_Id req"
  by (simp add: pushedNetworkInfo_def parseNetworkInfo_def Let_def)

lemma writeNetworkInfo_alternatives:
  assumes "writeNetworkInfo env s req = Returned r s'"
  shows "failRequest s req [] = Returned r s' \<or>
     (storeNetworkInfo s (pushedNetworkInfo env req) req = Returned r s' \<and>
      \<not> (ks_network_infos s (ni_Chain (parseNetworkInfo req)) \<noteq> None \<and>
         ni_Height (the (ks_network_infos s (ni_Chain (parseNetworkInfo req))))
           > ni_Height (parseNetworkInfo req)) \<and>
      (verifyBitcoinNetworkInfo env (pushedNetworkInfo env req)
           (ks_network_infos s (ni_Chain (parseNetworkInfo req))) = Some (Inr True) \<or>
       verifyEthereumNetworkInfo env (pushedNetworkInfo env req)
           (ks_network_infos s (ni_Chain (parseNetworkInfo req))) = Some (Inr True)))"
  using assms
  by (auto simp: writeNetworkInfo_def Let_def ReadLatestNetworkInfo_def pushedNetworkInfo_def
      split: if_splits option.splits sum.splits bool.splits)

text \<open>
  A request that returns either fails, and then only its own state changes, or is
  written, and then the record it replaces is not higher, and has the same height when
  it has the same hash.
\<close>

lemma writeNetworkInfo_Returned:
  assumes "writeNetworkInfo env s req = Returned r s'"
  shows "r = ([], []) \<and> \<not> ks_down s \<and>
     (s' = failed_store s req \<or>
      s' = written_store s (pushedNetworkInfo env req) req \<and>
         (\<forall>old. ks_network_infos s (ni_Chain (pushedNetworkInfo env req)) = Some old \<longrightarrow>
            ni_Height old \<le> ni_Height (pushedNetworkInfo env req) \<and>
            (ni_Hash old = ni_Hash (pushedNetworkInfo env req) \<longrightarrow>
               ni_Height old = ni_Height (pushedNetworkInfo env req))))"
proof -
  let ?info = "parseNetworkInfo req"
  let ?p = "pushedNetworkInfo env req"
  let ?old = "ks_network_infos s (ni_Chain ?info)"
  from writeNetworkInfo_alternatives[OF assms] show ?thesis
  proof (elim disjE conjE)
    assume "failRequest s req [] = Returned r s'"
    from failRequest_Returned[OF this] show ?thesis by simp
  next
    assume st: "storeNetworkInfo s ?p req = Returned r s'"
      and h: "\<not> (?old \<noteq> None \<and> ni_Height (the ?old) > ni_Height ?info)"
      and v: "verifyBitcoinNetworkInfo env ?p ?old = Some (Inr True)"
    from verifyBitcoinNetworkInfo_True[OF v] storeNetworkInfo_Returned[OF st] h
    show ?thesis by (auto simp: pushed_chain pushed_height)
  next
    assume st: "storeNetworkInfo s ?p req = Returned r s'"
      and h: "\<not> (?old \<noteq> None \<and> ni_Height (the ?old) > ni_Height ?info)"
      and v: "verifyEthereumNetworkInfo env ?p ?old = Some (Inr True)"
    from verifyEthereumNetworkInfo_True[OF v] storeNetworkInfo_Returned[OF st] h
    show ?thesis by (auto simp: pushed_chain pushed_height)
  qed
qed

lemma writeNetworkInfo_Panicked: "writeNetworkInfo env s req = Panicked s' \<Longrightarrow> s' = s"
  by (auto simp: writeNetworkInfo_def Let_def storeNetworkInfo_def failRequest_def
      split: if_splits option.splits sum.splits bool.splits)

text \<open>A request below the stored height is failed.\<close>

lemma writeNetworkInfo_lower:
  assumes "req_Role req = RequestRoleObserver" and "17 \<le> length (req_Extra req)"
    and "\<not> ks_down s"
    and "ks_network_infos s (ni_Chain (parseNetworkInfo req)) = Some old"
    and "ni_Height (parseNetworkInfo req) < ni_Height old"
  shows "writeNetworkInfo env s req = Returned ([], []) (failed_store s req)"
proof -
  have rd: "ReadLatestNetworkInfo s (ni_Chain (parseNetworkInfo req)) = Inr (Some old)"
    using assms(3,4) by (simp add: ReadLatestNetworkInfo_def)
  have len: "\<not> length (req_Extra req) < 17" using assms(2) by simp
  have "writeNetworkInfo env s req = failRequest s req []"
    unfolding writeNetworkInfo_def Let_def rd
    by (simp only: assms(1) assms(5) len if_False if_True sum.case option.sel
        simp_thms option.distinct not_False_eq_True refl if_cancel)
  then show ?thesis using assms(3) by (simp add: failRequest_up)
qed

subsection \<open>Network information: the keeper of \<open>keeper/network.go\<close>\<close>

lemma FinishRequest_infos:
  "ks_network_infos (final_store (FinishRequest s rid)) = ks_network_infos s"
  by (simp add: FinishRequest_def)

lemma network_go_verifyBitcoinNetworkInfo_True:
  "network_go_verifyBitcoinNetworkInfo env info = Inr True \<Longrightarrow>
   length (ni_Hash info) = 64 \<and>
   network_go_bitcoinMinimumFeeRate \<le> ni_Fee info \<and>
   ni_Fee info \<le> network_go_bitcoinMaximumFeeRate"
  by (auto simp: network_go_verifyBitcoinNetworkInfo_def split: if_splits option.splits)

text \<open>
  This keeper panics, returns an error, finishes the request, or writes the record of
  the request, which is then valid and not lower than the one it replaces.
\<close>

lemma network_go_writeNetworkInfo_alternatives:
  assumes "network_go_writeNetworkInfo env s req = out"
  shows "out = Panicked s \<or> out = Returned (Some ()) s \<or> out = FinishRequest s (req_Id req) \<or>
     (out = Returned None (written_store s (pushedNetworkInfo env req) req) \<and>
      network_go_verifyBitcoinNetworkInfo env (pushedNetworkInfo env req) = Inr True \<and>
      \<not> (ks_network_infos s (ni_Chain (parseNetworkInfo req)) \<noteq> None \<and>
         ni_Height (the (ks_network_infos s (ni_Chain (parseNetworkInfo req))))
           > ni_Height (parseNetworkInfo req)))"
  using assms
  by (auto simp: network_go_writeNetworkInfo_def Let_def ReadNetworkInfo_def
      WriteNetworkInfoFromRequest_def written_store_def pushedNetworkInfo_def
      split: if_splits option.splits sum.splits bool.splits)

subsection \<open>Network information: the stored height over a run\<close>

lemma height_not_lower_refl: "height_not_lower s s"
  by (simp add: height_not_lower_def)

lemma height_not_lower_trans:
  "height_not_lower s t \<Longrightarrow> height_not_lower t u \<Longrightarrow> height_not_lower s u"
  unfolding height_not_lower_def by (meson order_trans)

lemma height_not_lower_same:
  "ks_network_infos s' = ks_network_infos s \<Longrightarrow> height_not_lower s s'"
  by (simp add: height_not_lower_def)

lemma height_not_lower_written:
  "\<forall>old. ks_network_infos s (ni_Chain info) = Some old \<longrightarrow> ni_Height old \<le> ni_Height info
   \<Longrightarrow> height_not_lower s (written_store s info req)"
  by (auto simp: height_not_lower_def written_store_def)

lemma writeNetworkInfo_height:
  "height_not_lower s (final_store (writeNetworkInfo env s req))"
proof (cases "writeNetworkInfo env s req")
  case (Panicked s')
  with writeNetworkInfo_Panicked[OF Panicked] show ?thesis
    by (simp add: height_not_lower_refl)
next
  case (Returned r s')
  from writeNetworkInfo_Returned[OF Returned]
  consider "s' = failed_store s req"
    | "s' = written_store s (pushedNetworkInfo env req) req"
      "\<forall>old. ks_network_infos s (ni_Chain (pushedNetworkInfo env req)) = Some old \<longrightarrow>
         ni_Height old \<le> ni_Height (pushedNetworkInfo env req)"
    by blast
  then show ?thesis
  proof cases
    case 1
    then show ?thesis using Returned
      by (simp add: failed_store_def height_not_lower_same)
  next
    case 2
    then show ?thesis using Returned
      by (simp add: height_not_lower_written)
  qed
qed

lemma network_go_writeNetworkInfo_height:
  "height_not_lower s (final_store (network_go_writeNetworkInfo env s req))"
proof -
  let ?p = "pushedNetworkInfo env req"
  from network_go_writeNetworkInfo_alternatives[OF refl, of env s req]
  consider "final_store (network_go_writeNetworkInfo env s req) = s"
    | "network_go_writeNetworkInfo env s req = FinishRequest s (req_Id req)"
    | "network_go_writeNetworkInfo env s req = Returned None (written_store s ?p req)"
      "\<not> (ks_network_infos s (ni_Chain (parseNetworkInfo req)) \<noteq> None \<and>
         ni_Height (the (ks_network_infos s (ni_Chain (parseNetworkInfo req))))
           > ni_Height (parseNetworkInfo req))"
    by (elim disjE conjE) simp_all
  then show ?thesis
  proof cases
    case 1
    then show ?thesis by (simp add: height_not_lower_refl)
  next
    case 2
    then show ?thesis by (simp add: FinishRequest_infos height_not_lower_same)
  next
    case 3
    from 3(2) have "\<forall>old. ks_network_infos s (ni_Chain ?p) = Some old \<longrightarrow>
         ni_Height old \<le> ni_Height ?p"
      by (auto simp: pushed_chain pushed_height)
    then show ?thesis using 3(1) by (simp add: height_not_lower_written)
  qed
qed

lemma writeNetworkInfos_height: "height_not_lower s (writeNetworkInfos env s reqs)"
proof (induction reqs arbitrary: s)
  case Nil
  show ?case by (simp add: height_not_lower_refl)
next
  case (Cons req reqs)
  show ?case
  proof (cases "writeNetworkInfo env s req")
    case (Panicked s')
    with writeNetworkInfo_height[of s env req] show ?thesis by simp
  next
    case (Returned r s')
    with writeNetworkInfo_height[of s env req] Cons.IH[of s']
    show ?thesis by (auto intro: height_not_lower_trans)
  qed
qed

lemma network_go_writeNetworkInfos_height:
  "height_not_lower s (network_go_writeNetworkInfos env s reqs)"
proof (induction reqs arbitrary: s)
  case Nil
  show ?case by (simp add: height_not_lower_refl)
next
  case (Cons req reqs)
  show ?case
  proof (cases "network_go_writeNetworkInfo env s req")
    case (Panicked s')
    with network_go_writeNetworkInfo_height[of s env req] show ?thesis by simp
  next
    case (Returned r s')
    with network_go_writeNetworkInfo_height[of s env req] Cons.IH[of s']
    show ?thesis by (auto intro: height_not_lower_trans)
  qed
qed
subsection \<open>Network information: the fee range\<close>

text \<open>
  Once the hash has its length and the block is confirmed, the verdict of the current
  \<open>verifyBitcoinNetworkInfo\<close> is the fee test with the bounds 1 and 1000, and the
  verdict of the one in \<open>keeper/network.go\<close> is the fee test with the bounds 10 and 1000.
\<close>

lemma one_le_word: "1 \<le> (x::uint64) \<longleftrightarrow> x \<noteq> 0"
  using word_less_1[of x] by (simp only: not_less[symmetric])

lemma verifyBitcoinNetworkInfo_verdict:
  "verifyBitcoinNetworkInfo env info old = Some (Inr b) \<Longrightarrow> length (ni_Hash info) = 64 \<Longrightarrow>
   b = (1 \<le> ni_Fee info \<and> ni_Fee info \<le> 1000)"
  by (auto simp: verifyBitcoinNetworkInfo_def Let_def bitcoinMinimumFeeRate_def
      bitcoinMaximumFeeRate_def one_le_word
      split: if_splits option.splits sum.splits bool.splits)

lemma network_go_verifyBitcoinNetworkInfo_verdict:
  "network_go_verifyBitcoinNetworkInfo env info = Inr b \<Longrightarrow> length (ni_Hash info) = 64 \<Longrightarrow>
   b = (10 \<le> ni_Fee info \<and> ni_Fee info \<le> 1000)"
  by (auto simp: network_go_verifyBitcoinNetworkInfo_def network_go_bitcoinMinimumFeeRate_def
      network_go_bitcoinMaximumFeeRate_def
      split: if_splits option.splits)

text \<open>
  The current keeper, on a Bitcoin or Litecoin record that is new, not lower than the
  stored one and of the request's curve: the verdict decides between writing the record
  and failing the request.
\<close>

lemma writeNetworkInfo_bitcoin_verdict:
  assumes role: "req_Role req = RequestRoleObserver"
    and len: "17 \<le> length (req_Extra req)"
    and up: "\<not> ks_down s"
    and new: "\<forall>old. ks_network_infos s (ni_Chain (parseNetworkInfo req)) = Some old \<longrightarrow>
                ni_RequestId old \<noteq> req_Id req \<and> ni_Height old \<le> ni_Height (parseNetworkInfo req)"
    and curve: "ni_Chain (parseNetworkInfo req) = SafeCurveChain env (req_Curve req)"
    and chain: "ni_Chain (parseNetworkInfo req) = SafeChainBitcoin env \<or>
                ni_Chain (parseNetworkInfo req) = SafeChainLitecoin env"
    and verdict: "verifyBitcoinNetworkInfo env (pushedNetworkInfo env req)
                    (ks_network_infos s (ni_Chain (parseNetworkInfo req))) = Some (Inr b)"
  shows "writeNetworkInfo env s req =
           Returned ([], []) (if b then written_store s (pushedNetworkInfo env req) req
                              else failed_store s req)"
proof -
  let ?info = "parseNetworkInfo req"
  let ?old = "ks_network_infos s (ni_Chain ?info)"
  have rd: "ReadLatestNetworkInfo s (ni_Chain ?info) = Inr ?old"
    using up by (simp add: ReadLatestNetworkInfo_def)
  have g1: "\<not> (?old \<noteq> None \<and> ni_RequestId (the ?old) = req_Id req)"
    by (cases ?old) (use new in auto)
  have g2: "\<not> (?old \<noteq> None \<and> ni_Height (the ?old) > ni_Height ?info)"
    by (cases ?old) (use new in \<open>auto simp: not_less\<close>)
  have g3: "\<not> length (req_Extra req) < 17" using len by simp
  have p: "?info\<lparr>ni_Hash := EncodeToString (drop 17 (req_Extra req))\<rparr> = pushedNetworkInfo env req"
    using chain by (simp add: pushedNetworkInfo_def Let_def)
  have "writeNetworkInfo env s req =
      (case verifyBitcoinNetworkInfo env (pushedNetworkInfo env req) ?old of
         None \<Rightarrow> Panicked s
       | Some (Inl _) \<Rightarrow> Panicked s
       | Some (Inr False) \<Rightarrow> failRequest s req []
       | Some (Inr True) \<Rightarrow> storeNetworkInfo s (pushedNetworkInfo env req) req)"
    unfolding writeNetworkInfo_def Let_def rd p
    by (simp only: role g1 g2 g3 curve[symmetric] chain if_False if_True sum.case simp_thms refl)
  then show ?thesis
    using verdict up by (cases b) (simp_all add: failRequest_up storeNetworkInfo_up)
qed

lemma network_go_writeNetworkInfo_bitcoin_verdict:
  assumes role: "req_Role req = RequestRoleObserver"
    and len: "17 \<le> length (req_Extra req)"
    and up: "\<not> ks_down s"
    and new: "\<forall>old. ks_network_infos s (ni_Chain (parseNetworkInfo req)) = Some old \<longrightarrow>
                ni_RequestId old \<noteq> req_Id req \<and> ni_Height old \<le> ni_Height (parseNetworkInfo req)"
    and chain: "ni_Chain (parseNetworkInfo req) = SafeChainBitcoin env"
    and verdict: "network_go_verifyBitcoinNetworkInfo env (pushedNetworkInfo env req) = Inr b"
  shows "network_go_writeNetworkInfo env s req =
           (if b then Returned None (written_store s (pushedNetworkInfo env req) req)
            else FinishRequest s (req_Id req))"
proof -
  let ?info = "parseNetworkInfo req"
  let ?old = "ks_network_infos s (ni_Chain ?info)"
  have rd: "ReadNetworkInfo s (ni_Chain ?info) = Inr ?old"
    using up by (simp add: ReadNetworkInfo_def)
  have g1: "\<not> (?old \<noteq> None \<and> ni_RequestId (the ?old) = req_Id req)"
    by (cases ?old) (use new in auto)
  have g2: "\<not> (?old \<noteq> None \<and> ni_Height (the ?old) > ni_Height ?info)"
    by (cases ?old) (use new in \<open>auto simp: not_less\<close>)
  have g3: "\<not> length (req_Extra req) < 17" using len by simp
  have p: "?info\<lparr>ni_Hash := EncodeToString (drop 17 (req_Extra req))\<rparr> = pushedNetworkInfo env req"
    using chain by (simp add: pushedNetworkInfo_def Let_def)
  have "network_go_writeNetworkInfo env s req =
      (case network_go_verifyBitcoinNetworkInfo env (pushedNetworkInfo env req) of
         Inl _ \<Rightarrow> Returned (Some ()) s
       | Inr False \<Rightarrow> FinishRequest s (req_Id req)
       | Inr True \<Rightarrow>
          (case WriteNetworkInfoFromRequest s (pushedNetworkInfo env req) req of
             Inl _ \<Rightarrow> Returned (Some ()) s
           | Inr s' \<Rightarrow> Returned None s'))"
    unfolding network_go_writeNetworkInfo_def Let_def rd p
    by (simp only: role g1 g2 g3 chain[symmetric] if_False if_True sum.case simp_thms refl)
  then show ?thesis
    using verdict up
    by (cases b) (simp_all add: WriteNetworkInfoFromRequest_def written_store_def)
qed

lemma network_go_writeNetworkInfo_lower:
  assumes "req_Role req = RequestRoleObserver" and "17 \<le> length (req_Extra req)"
    and "\<not> ks_down s"
    and "ks_network_infos s (ni_Chain (parseNetworkInfo req)) = Some old"
    and "ni_Height (parseNetworkInfo req) < ni_Height old"
  shows "network_go_writeNetworkInfo env s req = FinishRequest s (req_Id req)"
proof -
  have rd: "ReadNetworkInfo s (ni_Chain (parseNetworkInfo req)) = Inr (Some old)"
    using assms(3,4) by (simp add: ReadNetworkInfo_def)
  have len: "\<not> length (req_Extra req) < 17" using assms(2) by simp
  show ?thesis
    unfolding network_go_writeNetworkInfo_def Let_def rd
    by (simp only: assms(1) assms(5) len if_False if_True sum.case option.sel
        simp_thms option.distinct not_False_eq_True refl if_cancel)
qed
subsection \<open>Claims on the network information\<close>

text \<open>
  C4. The claim: the keeper accepts a Bitcoin network-info record whose fee rate is
  between 1 and 1000, every fee rate from 1 to 1000 passes the fee check, and a fee rate
  outside fails the request and stores nothing. The current keeper does so
  (\<open>verifyBitcoinNetworkInfo_verdict\<close>, \<open>writeNetworkInfo_bitcoin_verdict\<close>). The
  keeper of \<open>keeper/network.go\<close> declares \<open>bitcoinMinimumFeeRate = 10\<close>: at the fee
  rate 5, with the block known to the node at the claimed height, its
  \<open>verifyBitcoinNetworkInfo\<close> answers false, and its \<open>writeNetworkInfo\<close> finishes the
  request and stores no record, where the current keeper stores the record.
\<close>

theorem C4_network_go_refuses_fee_rate_5:
  "network_go_verifyBitcoinNetworkInfo example_env
       (pushedNetworkInfo example_env (example_request ''r1'' 5 100 0xab)) = Inr False
   \<and> ks_network_infos (final_store (network_go_writeNetworkInfo example_env example_store
         (example_request ''r1'' 5 100 0xab))) 1 = None
   \<and> ks_requests (final_store (network_go_writeNetworkInfo example_env example_store
         (example_request ''r1'' 5 100 0xab))) ''r1'' = Some RequestStateDone
   \<and> map_option ni_Fee (ks_network_infos (final_store (writeNetworkInfo example_env example_store
         (example_request ''r1'' 5 100 0xab))) 1) = Some 5"
  by code_simp

text \<open>
  A Bitcoin or Litecoin record with another hash than the stored one passes the current
  \<open>verifyBitcoinNetworkInfo\<close> when the hash has its length, the node knows the block at
  the height of the record, not on a fork, and the fee is in the range. The
  \<open>verifyBitcoinNetworkInfo\<close> of \<open>keeper/network.go\<close> asks the same of the node, for
  every hash, and has no fork test.
\<close>

lemma verifyBitcoinNetworkInfo_confirmed:
  assumes "length (ni_Hash info) = 64"
    and "\<forall>old. stored = Some old \<longrightarrow> ni_Hash old \<noteq> ni_Hash info"
    and "bitcoinParams env (ni_Chain info) = Some rpc"
    and "bitcoin_RPCGetBlock env rpc (ni_Hash info) = Some block"
    and "blk_Height block = ni_Height info"
    and "blk_Confirmations block \<noteq> - 1"
    and "1 \<le> ni_Fee info" and "ni_Fee info \<le> 1000"
  shows "verifyBitcoinNetworkInfo env info stored = Some (Inr True)"
proof -
  have h: "\<not> (stored \<noteq> None \<and> ni_Hash (the stored) = ni_Hash info)"
    using assms(2) by (cases stored) auto
  have fee: "\<not> (ni_Fee info < bitcoinMinimumFeeRate \<or> ni_Fee info > bitcoinMaximumFeeRate)"
    using assms(7,8) one_le_word[of "ni_Fee info"]
    by (simp add: bitcoinMinimumFeeRate_def bitcoinMaximumFeeRate_def not_less)
  show ?thesis
    unfolding verifyBitcoinNetworkInfo_def Let_def
    using h fee assms(1,3,4,5,6) by simp
qed

lemma network_go_verifyBitcoinNetworkInfo_confirmed:
  assumes "length (ni_Hash info) = 64"
    and "bitcoin_RPCGetBlock env BitcoinRPC (ni_Hash info) = Some block"
    and "blk_Height block = ni_Height info"
    and "10 \<le> ni_Fee info" and "ni_Fee info \<le> 1000"
  shows "network_go_verifyBitcoinNetworkInfo env info = Inr True"
proof -
  have fee: "\<not> (ni_Fee info < network_go_bitcoinMinimumFeeRate \<or>
                 ni_Fee info > network_go_bitcoinMaximumFeeRate)"
    using assms(4,5)
    by (simp add: network_go_bitcoinMinimumFeeRate_def network_go_bitcoinMaximumFeeRate_def not_less)
  show ?thesis
    unfolding network_go_verifyBitcoinNetworkInfo_def
    using fee assms(1,2,3) by simp
qed

lemma bitcoinParams_Some:
  "bitcoinParams env chain = Some rpc \<Longrightarrow>
   chain = SafeChainBitcoin env \<or> chain = SafeChainLitecoin env"
  by (auto simp: bitcoinParams_def split: if_splits)

text \<open>
  Whenever the keeper of \<open>keeper/network.go\<close> changes the stored records, it has written
  the record of the request, whose height is not lower than the stored one.
\<close>

lemma FinishRequest_alternatives:
  "FinishRequest s rid = Returned (Some ()) s \<or>
   FinishRequest s rid =
     Returned None (s\<lparr>ks_requests := (ks_requests s)(rid \<mapsto> RequestStateDone)\<rparr>)"
  by (simp add: FinishRequest_def)

lemma network_go_writeNetworkInfo_changed:
  assumes "ks_network_infos (final_store (network_go_writeNetworkInfo env s req)) \<noteq> ks_network_infos s"
  shows "network_go_writeNetworkInfo env s req =
           Returned None (written_store s (pushedNetworkInfo env req) req)
     \<and> network_go_verifyBitcoinNetworkInfo env (pushedNetworkInfo env req) = Inr True
     \<and> (\<forall>old. ks_network_infos s (ni_Chain (pushedNetworkInfo env req)) = Some old \<longrightarrow>
           ni_Height old \<le> ni_Height (pushedNetworkInfo env req))"
proof -
  let ?out = "network_go_writeNetworkInfo env s req"
  let ?p = "pushedNetworkInfo env req"
  from network_go_writeNetworkInfo_alternatives[OF refl, of env s req]
  consider "?out = Panicked s" | "?out = Returned (Some ()) s"
    | "?out = FinishRequest s (req_Id req)"
    | "?out = Returned None (written_store s ?p req)"
      "network_go_verifyBitcoinNetworkInfo env ?p = Inr True"
      "\<not> (ks_network_infos s (ni_Chain (parseNetworkInfo req)) \<noteq> None \<and>
         ni_Height (the (ks_network_infos s (ni_Chain (parseNetworkInfo req))))
           > ni_Height (parseNetworkInfo req))"
    by blast
  then show ?thesis
  proof cases
    case 1
    with assms show ?thesis by simp
  next
    case 2
    with assms show ?thesis by simp
  next
    case 3
    with assms FinishRequest_infos[of s "req_Id req"] show ?thesis by simp
  next
    case 4
    have "\<forall>old. ks_network_infos s (ni_Chain ?p) = Some old \<longrightarrow> ni_Height old \<le> ni_Height ?p"
      using 4(3) by (auto simp: pushed_chain pushed_height not_less)
    with 4(1,2) show ?thesis by simp
  qed
qed

text \<open>
  C5, as the claim states it, fails: \<open>writeNetworkInfo\<close> would accept a record only if
  it is strictly higher than the stored one, or has its hash and its height. The store
  holds a record of height 100; a request with the height 100 and another hash, whose
  block the node confirms, is written as the latest record, by the current keeper and by
  the keeper of \<open>keeper/network.go\<close>.
\<close>

theorem C5_equal_height_other_hash_is_written:
  "ks_network_infos example_store_old 1 = Some example_old
   \<and> ks_requests (final_store (writeNetworkInfo example_env example_store_old
         (example_request ''r1'' 5 100 0xab))) ''r1'' = Some RequestStateDone
   \<and> map_option ni_RequestId (ks_network_infos (final_store (writeNetworkInfo example_env
         example_store_old (example_request ''r1'' 5 100 0xab))) 1) = Some ''r1''
   \<and> map_option ni_Height (ks_network_infos (final_store (writeNetworkInfo example_env
         example_store_old (example_request ''r1'' 5 100 0xab))) 1) = Some (ni_Height example_old)
   \<and> map_option ni_Hash (ks_network_infos (final_store (writeNetworkInfo example_env
         example_store_old (example_request ''r1'' 5 100 0xab))) 1) \<noteq> Some (ni_Hash example_old)
   \<and> map_option ni_RequestId (ks_network_infos (final_store (network_go_writeNetworkInfo
         example_env example_store_old (example_request ''r1'' 50 100 0xab))) 1) = Some ''r1''
   \<and> map_option ni_Height (ks_network_infos (final_store (network_go_writeNetworkInfo
         example_env example_store_old (example_request ''r1'' 50 100 0xab))) 1)
       = Some (ni_Height example_old)
   \<and> map_option ni_Hash (ks_network_infos (final_store (network_go_writeNetworkInfo
         example_env example_store_old (example_request ''r1'' 50 100 0xab))) 1)
       \<noteq> Some (ni_Hash example_old)"
  by code_simp

text \<open>
  The two keepers differ on a record that carries the stored hash at another height.
  The store holds a hash at height 100, and the node reports the block at
  height 101. The keeper of \<open>keeper/network.go\<close>, which does not compare the hash with
  the stored one, writes the record of height 101; the current keeper panics and the
  stored record stays.
\<close>

lemma network_go_writes_stored_hash_at_other_height:
  "map_option ni_Hash (ks_network_infos example_store_old 1) = Some (replicate 64 CHR ''c'')
   \<and> map_option ni_Height (ks_network_infos example_store_old 1) = Some 100
   \<and> returned (network_go_writeNetworkInfo example_env_101 example_store_old
        (example_request ''r1'' 50 101 0xcc)) = Some None
   \<and> map_option ni_Hash (ks_network_infos (final_store (network_go_writeNetworkInfo
        example_env_101 example_store_old (example_request ''r1'' 50 101 0xcc))) 1)
       = Some (replicate 64 CHR ''c'')
   \<and> map_option ni_Height (ks_network_infos (final_store (network_go_writeNetworkInfo
        example_env_101 example_store_old (example_request ''r1'' 50 101 0xcc))) 1) = Some 101
   \<and> map_option ni_RequestId (ks_network_infos (final_store (network_go_writeNetworkInfo
        example_env_101 example_store_old (example_request ''r1'' 50 101 0xcc))) 1) = Some ''r1''
   \<and> returned (writeNetworkInfo example_env_101 example_store_old
        (example_request ''r1'' 50 101 0xcc)) = None
   \<and> map_option ni_Height (ks_network_infos (final_store (writeNetworkInfo
        example_env_101 example_store_old (example_request ''r1'' 50 101 0xcc))) 1) = Some 100"
  by code_simp

text \<open>
  C5, amended. With \<open>p\<close> the record of the request and \<open>old\<close> the stored record of its
  chain:

  \<^item> the current \<open>writeNetworkInfo\<close> writes \<open>p\<close> (the request ends \<open>Done\<close>) only if the
    height of \<open>p\<close> is not lower than the height of \<open>old\<close>, and, when \<open>p\<close> has the hash
    of \<open>old\<close>, only if it has the height of \<open>old\<close>;
  \<^item> the \<open>writeNetworkInfo\<close> of \<open>keeper/network.go\<close> changes the stored records only by
    writing \<open>p\<close>, and only if the height of \<open>p\<close> is not lower than the height of
    \<open>old\<close>; it has no rule on the hash (a finished request is \<open>Done\<close> there as well,
    so the stored records tell whether the record was accepted);
  \<^item> a record with the stored height, or a greater one, and another hash is not refused:
    the current keeper writes every such Bitcoin or Litecoin record, of a new request of
    the chain's curve, whose hash has 64 characters, whose block the node reports at the
    height of the record and not on a fork, and whose fee is between 1 and 1000;
  \<^item> the keeper of \<open>keeper/network.go\<close> writes every Bitcoin record of a new request, at a
    height not lower than the stored one, whose hash has 64 characters, whose block the
    node reports at the height of the record, and whose fee is between 10 and 1000.
\<close>

theorem C5_written_only_if_not_lower:
  "(writeNetworkInfo env s req = Returned r s' \<and>
    ks_requests s' (req_Id req) = Some RequestStateDone \<and>
    ks_network_infos s (ni_Chain (pushedNetworkInfo env req)) = Some old \<longrightarrow>
      ks_network_infos s' (ni_Chain (pushedNetworkInfo env req)) = Some (pushedNetworkInfo env req)
      \<and> ni_Height old \<le> ni_Height (pushedNetworkInfo env req)
      \<and> (ni_Hash (pushedNetworkInfo env req) = ni_Hash old \<longrightarrow>
           ni_Height (pushedNetworkInfo env req) = ni_Height old))
   \<and> (ks_network_infos (final_store (network_go_writeNetworkInfo env s req)) \<noteq> ks_network_infos s \<and>
      ks_network_infos s (ni_Chain (pushedNetworkInfo env req)) = Some old \<longrightarrow>
        network_go_writeNetworkInfo env s req =
          Returned None (written_store s (pushedNetworkInfo env req) req)
        \<and> ni_Height old \<le> ni_Height (pushedNetworkInfo env req))
   \<and> (req_Role req = RequestRoleObserver \<and> 17 \<le> length (req_Extra req) \<and> \<not> ks_down s \<and>
      ks_network_infos s (ni_Chain (pushedNetworkInfo env req)) = Some old \<and>
      ni_RequestId old \<noteq> req_Id req \<and>
      ni_Height old \<le> ni_Height (pushedNetworkInfo env req) \<and>
      ni_Hash old \<noteq> ni_Hash (pushedNetworkInfo env req) \<and>
      ni_Chain (pushedNetworkInfo env req) = SafeCurveChain env (req_Curve req) \<and>
      bitcoinParams env (ni_Chain (pushedNetworkInfo env req)) = Some rpc \<and>
      length (ni_Hash (pushedNetworkInfo env req)) = 64 \<and>
      bitcoin_RPCGetBlock env rpc (ni_Hash (pushedNetworkInfo env req)) = Some block \<and>
      blk_Height block = ni_Height (pushedNetworkInfo env req) \<and>
      blk_Confirmations block \<noteq> - 1 \<and>
      1 \<le> ni_Fee (pushedNetworkInfo env req) \<and> ni_Fee (pushedNetworkInfo env req) \<le> 1000 \<longrightarrow>
        writeNetworkInfo env s req =
          Returned ([], []) (written_store s (pushedNetworkInfo env req) req))
   \<and> (req_Role req = RequestRoleObserver \<and> 17 \<le> length (req_Extra req) \<and> \<not> ks_down s \<and>
      ks_network_infos s (ni_Chain (pushedNetworkInfo env req)) = Some old \<and>
      ni_RequestId old \<noteq> req_Id req \<and>
      ni_Height old \<le> ni_Height (pushedNetworkInfo env req) \<and>
      ni_Chain (pushedNetworkInfo env req) = SafeChainBitcoin env \<and>
      length (ni_Hash (pushedNetworkInfo env req)) = 64 \<and>
      bitcoin_RPCGetBlock env BitcoinRPC (ni_Hash (pushedNetworkInfo env req)) = Some block \<and>
      blk_Height block = ni_Height (pushedNetworkInfo env req) \<and>
      10 \<le> ni_Fee (pushedNetworkInfo env req) \<and> ni_Fee (pushedNetworkInfo env req) \<le> 1000 \<longrightarrow>
        network_go_writeNetworkInfo env s req =
          Returned None (written_store s (pushedNetworkInfo env req) req))"
proof (intro conjI impI)
  let ?p = "pushedNetworkInfo env req"
  assume a: "writeNetworkInfo env s req = Returned r s' \<and>
    ks_requests s' (req_Id req) = Some RequestStateDone \<and>
    ks_network_infos s (ni_Chain ?p) = Some old"
  then have a1: "writeNetworkInfo env s req = Returned r s'"
    and a2: "ks_requests s' (req_Id req) = Some RequestStateDone"
    and a3: "ks_network_infos s (ni_Chain ?p) = Some old"
    by blast+
  from writeNetworkInfo_Returned[OF a1]
  consider "s' = failed_store s req"
    | "s' = written_store s ?p req"
      "\<forall>old. ks_network_infos s (ni_Chain ?p) = Some old \<longrightarrow>
            ni_Height old \<le> ni_Height ?p \<and>
            (ni_Hash old = ni_Hash ?p \<longrightarrow> ni_Height old = ni_Height ?p)"
    by blast
  then have "ks_network_infos s' (ni_Chain ?p) = Some ?p \<and> ni_Height old \<le> ni_Height ?p \<and>
     (ni_Hash ?p = ni_Hash old \<longrightarrow> ni_Height ?p = ni_Height old)"
  proof cases
    case 1
    with a2 show ?thesis
      by (simp add: failed_store_def RequestStateDone_def RequestStateFailed_def)
  next
    case 2
    from 2(2) a3 have "ni_Height old \<le> ni_Height ?p"
      and "ni_Hash old = ni_Hash ?p \<longrightarrow> ni_Height old = ni_Height ?p"
      by blast+
    with 2(1) show ?thesis by (auto simp: written_store_def)
  qed
  then show "ks_network_infos s' (ni_Chain ?p) = Some ?p"
    and "ni_Height old \<le> ni_Height ?p"
    and "ni_Hash ?p = ni_Hash old \<Longrightarrow> ni_Height ?p = ni_Height old"
    by blast+
next
  let ?p = "pushedNetworkInfo env req"
  assume b: "ks_network_infos (final_store (network_go_writeNetworkInfo env s req)) \<noteq> ks_network_infos s \<and>
      ks_network_infos s (ni_Chain ?p) = Some old"
  then have b1: "ks_network_infos (final_store (network_go_writeNetworkInfo env s req)) \<noteq> ks_network_infos s"
    and b2: "ks_network_infos s (ni_Chain ?p) = Some old"
    by blast+
  from network_go_writeNetworkInfo_changed[OF b1] b2
  show "network_go_writeNetworkInfo env s req = Returned None (written_store s ?p req)"
    and "ni_Height old \<le> ni_Height ?p"
    by blast+
next
  let ?p = "pushedNetworkInfo env req"
  assume c: "req_Role req = RequestRoleObserver \<and> 17 \<le> length (req_Extra req) \<and> \<not> ks_down s \<and>
      ks_network_infos s (ni_Chain ?p) = Some old \<and>
      ni_RequestId old \<noteq> req_Id req \<and>
      ni_Height old \<le> ni_Height ?p \<and>
      ni_Hash old \<noteq> ni_Hash ?p \<and>
      ni_Chain ?p = SafeCurveChain env (req_Curve req) \<and>
      bitcoinParams env (ni_Chain ?p) = Some rpc \<and>
      length (ni_Hash ?p) = 64 \<and>
      bitcoin_RPCGetBlock env rpc (ni_Hash ?p) = Some block \<and>
      blk_Height block = ni_Height ?p \<and>
      blk_Confirmations block \<noteq> - 1 \<and>
      1 \<le> ni_Fee ?p \<and> ni_Fee ?p \<le> 1000"
  then have role: "req_Role req = RequestRoleObserver" and len: "17 \<le> length (req_Extra req)"
    and up: "\<not> ks_down s"
    and old: "ks_network_infos s (ni_Chain ?p) = Some old"
    and rid: "ni_RequestId old \<noteq> req_Id req"
    and hgt: "ni_Height old \<le> ni_Height ?p"
    and hash: "ni_Hash old \<noteq> ni_Hash ?p"
    and curve: "ni_Chain ?p = SafeCurveChain env (req_Curve req)"
    and params: "bitcoinParams env (ni_Chain ?p) = Some rpc"
    and hlen: "length (ni_Hash ?p) = 64"
    and blk: "bitcoin_RPCGetBlock env rpc (ni_Hash ?p) = Some block"
    and bh: "blk_Height block = ni_Height ?p"
    and bc: "blk_Confirmations block \<noteq> - 1"
    and f1: "1 \<le> ni_Fee ?p" and f2: "ni_Fee ?p \<le> 1000"
    by blast+
  have new: "\<forall>od. ks_network_infos s (ni_Chain (parseNetworkInfo req)) = Some od \<longrightarrow>
      ni_RequestId od \<noteq> req_Id req \<and> ni_Height od \<le> ni_Height (parseNetworkInfo req)"
    using old rid hgt by (simp add: pushed_chain pushed_height)
  have other: "\<forall>od. ks_network_infos s (ni_Chain (parseNetworkInfo req)) = Some od \<longrightarrow>
      ni_Hash od \<noteq> ni_Hash ?p"
    using old hash by (simp add: pushed_chain)
  have curve': "ni_Chain (parseNetworkInfo req) = SafeCurveChain env (req_Curve req)"
    using curve by (simp add: pushed_chain)
  have chain: "ni_Chain (parseNetworkInfo req) = SafeChainBitcoin env \<or>
               ni_Chain (parseNetworkInfo req) = SafeChainLitecoin env"
    using bitcoinParams_Some[OF params] by (simp add: pushed_chain)
  have verdict: "verifyBitcoinNetworkInfo env ?p
      (ks_network_infos s (ni_Chain (parseNetworkInfo req))) = Some (Inr True)"
    by (rule verifyBitcoinNetworkInfo_confirmed[OF hlen other params blk bh bc f1 f2])
  show "writeNetworkInfo env s req = Returned ([], []) (written_store s ?p req)"
    using writeNetworkInfo_bitcoin_verdict[OF role len up new curve' chain verdict] by simp
next
  let ?p = "pushedNetworkInfo env req"
  assume d: "req_Role req = RequestRoleObserver \<and> 17 \<le> length (req_Extra req) \<and> \<not> ks_down s \<and>
      ks_network_infos s (ni_Chain ?p) = Some old \<and>
      ni_RequestId old \<noteq> req_Id req \<and>
      ni_Height old \<le> ni_Height ?p \<and>
      ni_Chain ?p = SafeChainBitcoin env \<and>
      length (ni_Hash ?p) = 64 \<and>
      bitcoin_RPCGetBlock env BitcoinRPC (ni_Hash ?p) = Some block \<and>
      blk_Height block = ni_Height ?p \<and>
      10 \<le> ni_Fee ?p \<and> ni_Fee ?p \<le> 1000"
  then have role: "req_Role req = RequestRoleObserver" and len: "17 \<le> length (req_Extra req)"
    and up: "\<not> ks_down s"
    and old: "ks_network_infos s (ni_Chain ?p) = Some old"
    and rid: "ni_RequestId old \<noteq> req_Id req"
    and hgt: "ni_Height old \<le> ni_Height ?p"
    and chain: "ni_Chain ?p = SafeChainBitcoin env"
    and hlen: "length (ni_Hash ?p) = 64"
    and blk: "bitcoin_RPCGetBlock env BitcoinRPC (ni_Hash ?p) = Some block"
    and bh: "blk_Height block = ni_Height ?p"
    and f1: "10 \<le> ni_Fee ?p" and f2: "ni_Fee ?p \<le> 1000"
    by blast+
  have new: "\<forall>od. ks_network_infos s (ni_Chain (parseNetworkInfo req)) = Some od \<longrightarrow>
      ni_RequestId od \<noteq> req_Id req \<and> ni_Height od \<le> ni_Height (parseNetworkInfo req)"
    using old rid hgt by (simp add: pushed_chain pushed_height)
  have chain': "ni_Chain (parseNetworkInfo req) = SafeChainBitcoin env"
    using chain by (simp add: pushed_chain)
  have verdict: "network_go_verifyBitcoinNetworkInfo env ?p = Inr True"
    by (rule network_go_verifyBitcoinNetworkInfo_confirmed[OF hlen blk bh f1 f2])
  show "network_go_writeNetworkInfo env s req = Returned None (written_store s ?p req)"
    using network_go_writeNetworkInfo_bitcoin_verdict[OF role len up new chain' verdict] by simp
qed

theorem C5_written_only_if_not_lower_witness:
  "ks_network_infos example_store_old
       (ni_Chain (pushedNetworkInfo example_env (example_request ''r1'' 50 100 0xab)))
     = Some example_old
   \<and> ni_Height example_old
       = ni_Height (pushedNetworkInfo example_env (example_request ''r1'' 50 100 0xab))
   \<and> ni_Hash example_old
       \<noteq> ni_Hash (pushedNetworkInfo example_env (example_request ''r1'' 50 100 0xab))
   \<and> writeNetworkInfo example_env example_store_old (example_request ''r1'' 50 100 0xab)
       = Returned ([], []) (written_store example_store_old
           (pushedNetworkInfo example_env (example_request ''r1'' 50 100 0xab))
           (example_request ''r1'' 50 100 0xab))
   \<and> network_go_writeNetworkInfo example_env example_store_old (example_request ''r1'' 50 100 0xab)
       = Returned None (written_store example_store_old
           (pushedNetworkInfo example_env (example_request ''r1'' 50 100 0xab))
           (example_request ''r1'' 50 100 0xab))
   \<and> ks_network_infos (final_store (network_go_writeNetworkInfo example_env example_store_old
         (example_request ''r1'' 50 100 0xab))) \<noteq> ks_network_infos example_store_old
   \<and> ks_network_infos (written_store example_store_old
         (pushedNetworkInfo example_env (example_request ''r1'' 50 100 0xab))
         (example_request ''r1'' 50 100 0xab))
       (ni_Chain (pushedNetworkInfo example_env (example_request ''r1'' 50 100 0xab)))
       = Some (pushedNetworkInfo example_env (example_request ''r1'' 50 100 0xab))"
proof -
  let ?req = "example_request ''r1'' 50 100 0xab"
  let ?p = "pushedNetworkInfo example_env ?req"
  let ?s = "example_store_old"
  let ?block = "\<lparr>blk_Height = 100, blk_Confirmations = 3\<rparr>"
  let ?w = "written_store ?s ?p ?req"
  note inst = C5_written_only_if_not_lower[of example_env ?s ?req "([], [])" ?w example_old
      BitcoinRPC ?block]
  have role: "req_Role ?req = RequestRoleObserver" by code_simp
  have len: "17 \<le> length (req_Extra ?req)" by code_simp
  have up: "\<not> ks_down ?s" by code_simp
  have chain: "ni_Chain ?p = 1" by code_simp
  have old: "ks_network_infos ?s (ni_Chain ?p) = Some example_old"
    unfolding chain by (simp add: example_store_old_def)
  have rid: "ni_RequestId example_old \<noteq> req_Id ?req" by code_simp
  have hgt: "ni_Height example_old = ni_Height ?p" by code_simp
  have hle: "ni_Height example_old \<le> ni_Height ?p" using hgt by simp
  have hash: "ni_Hash example_old \<noteq> ni_Hash ?p" by code_simp
  have curve: "ni_Chain ?p = SafeCurveChain example_env (req_Curve ?req)" by code_simp
  have btc: "ni_Chain ?p = SafeChainBitcoin example_env" by code_simp
  have params: "bitcoinParams example_env (ni_Chain ?p) = Some BitcoinRPC" by code_simp
  have hlen: "length (ni_Hash ?p) = 64" by code_simp
  have blk: "bitcoin_RPCGetBlock example_env BitcoinRPC (ni_Hash ?p) = Some ?block"
    by (simp add: example_env_def)
  have bh: "blk_Height ?block = ni_Height ?p" by code_simp
  have bc: "blk_Confirmations ?block \<noteq> - 1" by simp
  have f1: "1 \<le> ni_Fee ?p" by code_simp
  have f10: "10 \<le> ni_Fee ?p" by code_simp
  have f2: "ni_Fee ?p \<le> 1000" by code_simp
  have run: "writeNetworkInfo example_env ?s ?req = Returned ([], []) ?w"
    using inst role len up old rid hle hash curve params hlen blk bh bc f1 f2 by blast
  have run_go: "network_go_writeNetworkInfo example_env ?s ?req = Returned None ?w"
    using inst role len up old rid hle btc hlen blk bh f10 f2 by blast
  have fin: "ks_requests ?w (req_Id ?req) = Some RequestStateDone"
    by (simp add: written_store_def)
  have stored: "ks_network_infos ?w (ni_Chain ?p) = Some ?p"
    using inst run fin old by blast
  have "ks_network_infos ?w (ni_Chain ?p) \<noteq> ks_network_infos ?s (ni_Chain ?p)"
    unfolding stored old using hash by auto
  then have changed: "ks_network_infos (final_store (network_go_writeNetworkInfo example_env ?s ?req))
      \<noteq> ks_network_infos ?s"
    unfolding run_go by auto
  have "ni_Height example_old \<le> ni_Height ?p"
    using inst changed old by blast
  with old hgt hash run run_go changed stored show ?thesis by blast
qed

text \<open>
  C6, as the claim states it, fails for the keeper of \<open>keeper/network.go\<close>: a request
  with a height lower than the stored one would be failed. The store holds a record of
  height 100 and the open request \<open>r2\<close> carries the height 50. The keeper of
  \<open>keeper/network.go\<close> calls \<open>FinishRequest\<close>: it returns \<open>nil\<close> and the request is
  \<open>Done\<close>, not \<open>Failed\<close>. The current keeper leaves the request \<open>Failed\<close>. Both leave
  the stored record as it was.
\<close>

theorem C6_network_go_lower_request_ends_done:
  "map_option ni_Height (ks_network_infos example_store_old 1) = Some 100
   \<and> ni_Height (parseNetworkInfo (example_request ''r2'' 50 50 0xab)) = 50
   \<and> ks_requests example_store_old ''r2'' = Some RequestStateInitial
   \<and> returned (network_go_writeNetworkInfo example_env example_store_old
        (example_request ''r2'' 50 50 0xab)) = Some None
   \<and> ks_requests (final_store (network_go_writeNetworkInfo example_env example_store_old
        (example_request ''r2'' 50 50 0xab))) ''r2'' = Some RequestStateDone
   \<and> RequestStateDone \<noteq> RequestStateFailed
   \<and> map_option ni_Height (ks_network_infos (final_store (network_go_writeNetworkInfo
        example_env example_store_old (example_request ''r2'' 50 50 0xab))) 1) = Some 100
   \<and> ks_requests (final_store (writeNetworkInfo example_env example_store_old
        (example_request ''r2'' 50 50 0xab))) ''r2'' = Some RequestStateFailed
   \<and> map_option ni_Height (ks_network_infos (final_store (writeNetworkInfo
        example_env example_store_old (example_request ''r2'' 50 50 0xab))) 1) = Some 100"
  by code_simp

text \<open>
  C6, amended. Over every sequence of network-info requests the stored height of a chain
  never goes down, with the current keeper and with the keeper of \<open>keeper/network.go\<close>.
  A request whose height is lower than the stored one leaves the stored records as they
  are. The current keeper fails it: the request ends \<open>Failed\<close>. The keeper of
  \<open>keeper/network.go\<close> finishes it: when the request is \<open>Initial\<close> it ends \<open>Done\<close> and
  \<open>nil\<close> is returned, and otherwise an error is returned and the store is as it was.
\<close>

theorem C6_stored_height_never_decreases:
  "(ks_network_infos s chain = Some old \<longrightarrow>
      (\<exists>new. ks_network_infos (writeNetworkInfos env s reqs) chain = Some new \<and>
             ni_Height old \<le> ni_Height new) \<and>
      (\<exists>new. ks_network_infos (network_go_writeNetworkInfos env s reqs) chain = Some new \<and>
             ni_Height old \<le> ni_Height new))
   \<and> (req_Role req = RequestRoleObserver \<and> 17 \<le> length (req_Extra req) \<and> \<not> ks_down s \<and>
       ks_network_infos s (ni_Chain (parseNetworkInfo req)) = Some old \<and>
       ni_Height (parseNetworkInfo req) < ni_Height old \<longrightarrow>
         writeNetworkInfo env s req = Returned ([], []) (failed_store s req) \<and>
         ks_network_infos (failed_store s req) = ks_network_infos s \<and>
         ks_requests (failed_store s req) (req_Id req) = Some RequestStateFailed \<and>
         network_go_writeNetworkInfo env s req = FinishRequest s (req_Id req) \<and>
         network_go_writeNetworkInfo env s req =
           (if ks_requests s (req_Id req) = Some RequestStateInitial
            then Returned None
                   (s\<lparr>ks_requests := (ks_requests s)(req_Id req \<mapsto> RequestStateDone)\<rparr>)
            else Returned (Some ()) s) \<and>
         ks_network_infos (final_store (network_go_writeNetworkInfo env s req)) = ks_network_infos s)"
proof (intro conjI impI)
  assume "ks_network_infos s chain = Some old"
  with writeNetworkInfos_height[of s env reqs]
  show "\<exists>new. ks_network_infos (writeNetworkInfos env s reqs) chain = Some new \<and>
             ni_Height old \<le> ni_Height new"
    by (simp add: height_not_lower_def)
next
  assume "ks_network_infos s chain = Some old"
  with network_go_writeNetworkInfos_height[of s env reqs]
  show "\<exists>new. ks_network_infos (network_go_writeNetworkInfos env s reqs) chain = Some new \<and>
             ni_Height old \<le> ni_Height new"
    by (simp add: height_not_lower_def)
next
  assume a: "req_Role req = RequestRoleObserver \<and> 17 \<le> length (req_Extra req) \<and> \<not> ks_down s \<and>
       ks_network_infos s (ni_Chain (parseNetworkInfo req)) = Some old \<and>
       ni_Height (parseNetworkInfo req) < ni_Height old"
  then have a1: "req_Role req = RequestRoleObserver" and a2: "17 \<le> length (req_Extra req)"
    and a3: "\<not> ks_down s"
    and a4: "ks_network_infos s (ni_Chain (parseNetworkInfo req)) = Some old"
    and a5: "ni_Height (parseNetworkInfo req) < ni_Height old"
    by blast+
  show "writeNetworkInfo env s req = Returned ([], []) (failed_store s req)"
    by (rule writeNetworkInfo_lower[OF a1 a2 a3 a4 a5])
  show "ks_network_infos (failed_store s req) = ks_network_infos s"
    by (simp add: failed_store_def)
  show "ks_requests (failed_store s req) (req_Id req) = Some RequestStateFailed"
    by (simp add: failed_store_def)
  show go: "network_go_writeNetworkInfo env s req = FinishRequest s (req_Id req)"
    by (rule network_go_writeNetworkInfo_lower[OF a1 a2 a3 a4 a5])
  show "network_go_writeNetworkInfo env s req =
           (if ks_requests s (req_Id req) = Some RequestStateInitial
            then Returned None
                   (s\<lparr>ks_requests := (ks_requests s)(req_Id req \<mapsto> RequestStateDone)\<rparr>)
            else Returned (Some ()) s)"
    unfolding go using a3 by (simp add: FinishRequest_def)
  show "ks_network_infos (final_store (network_go_writeNetworkInfo env s req)) = ks_network_infos s"
    unfolding go by (rule FinishRequest_infos)
qed

theorem C6_stored_height_never_decreases_witness:
  "ks_network_infos example_store_old 1 = Some example_old
   \<and> (\<exists>new. ks_network_infos (writeNetworkInfos example_env example_store_old
          [example_request ''r1'' 5 100 0xab, example_request ''r2'' 5 50 0xab]) 1 = Some new \<and>
        ni_Height example_old \<le> ni_Height new)
   \<and> (\<exists>new. ks_network_infos (network_go_writeNetworkInfos example_env example_store_old
          [example_request ''r1'' 50 100 0xab, example_request ''r2'' 50 50 0xab]) 1 = Some new \<and>
        ni_Height example_old \<le> ni_Height new)
   \<and> ni_Height (parseNetworkInfo (example_request ''r2'' 5 50 0xab)) < ni_Height example_old
   \<and> writeNetworkInfo example_env example_store_old (example_request ''r2'' 5 50 0xab)
       = Returned ([], []) (failed_store example_store_old (example_request ''r2'' 5 50 0xab))
   \<and> ks_requests example_store_old (req_Id (example_request ''r2'' 5 50 0xab))
       = Some RequestStateInitial
   \<and> network_go_writeNetworkInfo example_env example_store_old (example_request ''r2'' 5 50 0xab)
       = Returned None (example_store_old\<lparr>ks_requests := (ks_requests example_store_old)
           (req_Id (example_request ''r2'' 5 50 0xab) \<mapsto> RequestStateDone)\<rparr>)
   \<and> ks_requests example_store_old (req_Id (example_request ''r9'' 5 50 0xab))
       \<noteq> Some RequestStateInitial
   \<and> network_go_writeNetworkInfo example_env example_store_old (example_request ''r9'' 5 50 0xab)
       = Returned (Some ()) example_store_old"
proof -
  let ?req = "example_request ''r2'' 5 50 0xab"
  let ?req9 = "example_request ''r9'' 5 50 0xab"
  have h1: "ks_network_infos example_store_old 1 = Some example_old"
    by (simp add: example_store_old_def)
  have chain: "ni_Chain (parseNetworkInfo ?req) = 1" by code_simp
  have chain9: "ni_Chain (parseNetworkInfo ?req9) = 1" by code_simp
  have h2: "req_Role ?req = RequestRoleObserver \<and> 17 \<le> length (req_Extra ?req) \<and>
       \<not> ks_down example_store_old \<and>
       ks_network_infos example_store_old (ni_Chain (parseNetworkInfo ?req)) = Some example_old \<and>
       ni_Height (parseNetworkInfo ?req) < ni_Height example_old"
  proof (intro conjI)
    show "req_Role ?req = RequestRoleObserver" by code_simp
    show "17 \<le> length (req_Extra ?req)" by code_simp
    show "\<not> ks_down example_store_old" by code_simp
    show "ks_network_infos example_store_old (ni_Chain (parseNetworkInfo ?req)) = Some example_old"
      unfolding chain by (rule h1)
    show "ni_Height (parseNetworkInfo ?req) < ni_Height example_old" by code_simp
  qed
  have h9: "req_Role ?req9 = RequestRoleObserver \<and> 17 \<le> length (req_Extra ?req9) \<and>
       \<not> ks_down example_store_old \<and>
       ks_network_infos example_store_old (ni_Chain (parseNetworkInfo ?req9)) = Some example_old \<and>
       ni_Height (parseNetworkInfo ?req9) < ni_Height example_old"
  proof (intro conjI)
    show "req_Role ?req9 = RequestRoleObserver" by code_simp
    show "17 \<le> length (req_Extra ?req9)" by code_simp
    show "\<not> ks_down example_store_old" by code_simp
    show "ks_network_infos example_store_old (ni_Chain (parseNetworkInfo ?req9)) = Some example_old"
      unfolding chain9 by (rule h1)
    show "ni_Height (parseNetworkInfo ?req9) < ni_Height example_old" by code_simp
  qed
  have i2: "ks_requests example_store_old (req_Id ?req) = Some RequestStateInitial" by code_simp
  have i9: "ks_requests example_store_old (req_Id ?req9) \<noteq> Some RequestStateInitial" by code_simp
  from C6_stored_height_never_decreases[of example_store_old 1 example_old example_env
      "[example_request ''r1'' 5 100 0xab, example_request ''r2'' 5 50 0xab]" ?req] h1 h2 i2
  have p1: "(\<exists>new. ks_network_infos (writeNetworkInfos example_env example_store_old
          [example_request ''r1'' 5 100 0xab, example_request ''r2'' 5 50 0xab]) 1 = Some new \<and>
        ni_Height example_old \<le> ni_Height new)"
    and p2: "writeNetworkInfo example_env example_store_old ?req
       = Returned ([], []) (failed_store example_store_old ?req)"
    and p3: "network_go_writeNetworkInfo example_env example_store_old ?req
       = Returned None (example_store_old\<lparr>ks_requests := (ks_requests example_store_old)
           (req_Id ?req \<mapsto> RequestStateDone)\<rparr>)"
    by auto
  from C6_stored_height_never_decreases[of example_store_old 1 example_old example_env
      "[example_request ''r1'' 50 100 0xab, example_request ''r2'' 50 50 0xab]" ?req9] h1 h9 i9
  have p4: "(\<exists>new. ks_network_infos (network_go_writeNetworkInfos example_env example_store_old
          [example_request ''r1'' 50 100 0xab, example_request ''r2'' 50 50 0xab]) 1 = Some new \<and>
        ni_Height example_old \<le> ni_Height new)"
    and p5: "network_go_writeNetworkInfo example_env example_store_old ?req9
       = Returned (Some ()) example_store_old"
    by auto
  from h1 h2 i2 i9 p1 p2 p3 p4 p5 show ?thesis by blast
qed

subsection \<open>Bitcoin outputs: rows only move forward\<close>

lemma assigned_forward_refl: "assigned_forward r r"
  by (simp add: assigned_forward_def)

lemma assigned_forward_trans:
  "assigned_forward r r' \<Longrightarrow> assigned_forward r' r'' \<Longrightarrow> assigned_forward r r''"
  by (auto simp: assigned_forward_def)

lemma assigned_forward_assign:
  "unassigned_at h i r \<Longrightarrow> assigned_forward r (assign_row spender now r)"
  by (simp add: assigned_forward_def unassigned_at_def assign_row_def)

lemma assigned_forward_kept:
  "assigned_forward r r' \<Longrightarrow> out_SpentBy r = Some b \<Longrightarrow> r' = r"
  by (auto simp: assigned_forward_def)

lemma rows_forward_refl: "rows_forward rows rows"
  by (simp add: rows_forward_def assigned_forward_refl)

lemma rows_forward_trans:
  assumes "rows_forward a b" and "rows_forward b c"
  shows "rows_forward a c"
proof -
  from assms have len: "length a \<le> length b" "length b \<le> length c"
    by (simp_all add: rows_forward_def)
  have "assigned_forward (a ! n) (c ! n)" if "n < length a" for n
  proof -
    from that len have "n < length b" by simp
    with assms that have "assigned_forward (a ! n) (b ! n)" "assigned_forward (b ! n) (c ! n)"
      by (simp_all add: rows_forward_def)
    then show ?thesis by (rule assigned_forward_trans)
  qed
  with len show ?thesis by (simp add: rows_forward_def)
qed

lemma execOne_update_spent_forward:
  assumes "execOne_update_spent rows spender now h i = Inr rows'"
  shows "rows_forward rows rows'"
proof -
  from assms have rows':
    "rows' = map (\<lambda>row. if unassigned_at h i row then assign_row spender now row else row) rows"
    by (simp add: execOne_update_spent_def split: if_splits)
  show ?thesis
    unfolding rows_forward_def rows'
    by (simp add: assigned_forward_refl assigned_forward_assign)
qed

lemma execOne_insert_forward:
  assumes "execOne_insert rows utxo = Inr rows'"
  shows "rows_forward rows rows'"
proof -
  from assms have "rows' = rows @ [utxo]"
    by (simp add: execOne_insert_def split: if_splits)
  then show ?thesis
    by (simp add: rows_forward_def nth_append assigned_forward_refl)
qed

lemma spend_inputs_forward:
  "spend_inputs rows spender now ins = Inr rows' \<Longrightarrow> rows_forward rows rows'"
proof (induction ins arbitrary: rows)
  case Nil
  then show ?case by (simp add: rows_forward_refl)
next
  case (Cons a ins)
  obtain h i where a: "a = (h, i)" by (cases a)
  from Cons.prems a obtain mid where
    mid: "execOne_update_spent rows spender now h i = Inr mid"
    and rest: "spend_inputs mid spender now ins = Inr rows'"
    by (auto split: sum.splits)
  from execOne_update_spent_forward[OF mid] Cons.IH[OF rest]
  show ?case by (rule rows_forward_trans)
qed

lemma insert_outputs_forward:
  "insert_outputs rows hash raw receiver tx now i vs = Inr rows' \<Longrightarrow> rows_forward rows rows'"
proof (induction vs arbitrary: rows i)
  case Nil
  then show ?case by (simp add: rows_forward_refl)
next
  case (Cons v vs)
  from Cons.prems obtain mid where
    mid: "execOne_insert rows (fee_output_row hash raw receiver tx now i v) = Inr mid"
    and rest: "insert_outputs mid hash raw receiver tx now (Suc i) vs = Inr rows'"
    by (auto split: sum.splits)
  from execOne_insert_forward[OF mid] Cons.IH[OF rest]
  show ?case by (rule rows_forward_trans)
qed

lemma WriteBitcoinUTXOIfNotExists_forward:
  "rows_forward (os_outputs s) (os_outputs (final_store (WriteBitcoinUTXOIfNotExists s utxo)))"
  by (auto simp: WriteBitcoinUTXOIfNotExists_def rows_forward_refl
      dest: execOne_insert_forward split: sum.splits)

lemma AssignBitcoinUTXOByRangeForTransaction_forward:
  "rows_forward (os_outputs s)
     (os_outputs (final_store (AssignBitcoinUTXOByRangeForTransaction s now lo hi tx)))"
  by (auto simp: AssignBitcoinUTXOByRangeForTransaction_def rows_forward_refl
      dest: execOne_update_spent_forward split: sum.splits option.splits)

lemma WriteBitcoinFeeOutput_forward:
  "rows_forward (os_outputs s)
     (os_outputs (final_store (WriteBitcoinFeeOutput s now msgTx receiver tx)))"
  by (auto simp: WriteBitcoinFeeOutput_def rows_forward_refl
      dest!: spend_inputs_forward insert_outputs_forward intro: rows_forward_trans
      split: sum.splits option.splits)

lemma write_outputs_forward: "rows_forward (os_outputs s) (os_outputs (write_outputs s w))"
  by (cases w)
     (simp_all add: WriteBitcoinUTXOIfNotExists_forward
        AssignBitcoinUTXOByRangeForTransaction_forward WriteBitcoinFeeOutput_forward)

lemma run_writes_forward: "rows_forward (os_outputs s) (os_outputs (run_writes s ws))"
proof (induction ws arbitrary: s)
  case Nil
  show ?case by (simp add: rows_forward_refl)
next
  case (Cons w ws)
  from write_outputs_forward[of s w] Cons.IH[of "write_outputs s w"]
  show ?case by (simp add: rows_forward_trans)
qed
subsection \<open>Bitcoin outputs: the rows a fee transaction adds\<close>

lemma execOne_update_spent_length:
  "execOne_update_spent rows spender now h i = Inr rows' \<Longrightarrow> length rows' = length rows"
  by (auto simp: execOne_update_spent_def split: if_splits)

lemma spend_inputs_length:
  "spend_inputs rows spender now ins = Inr rows' \<Longrightarrow> length rows' = length rows"
proof (induction ins arbitrary: rows)
  case Nil
  then show ?case by simp
next
  case (Cons a ins)
  obtain h i where a: "a = (h, i)" by (cases a)
  from Cons.prems a obtain mid where
    mid: "execOne_update_spent rows spender now h i = Inr mid"
    and rest: "spend_inputs mid spender now ins = Inr rows'"
    by (auto split: sum.splits)
  from execOne_update_spent_length[OF mid] Cons.IH[OF rest] show ?case by simp
qed

lemma insert_outputs_first:
  assumes "insert_outputs rows hash raw receiver tx now i (v # vs) = Inr rows'"
  shows "length rows < length rows' \<and> rows' ! length rows = fee_output_row hash raw receiver tx now i v"
proof -
  from assms obtain mid where
    mid: "execOne_insert rows (fee_output_row hash raw receiver tx now i v) = Inr mid"
    and rest: "insert_outputs mid hash raw receiver tx now (Suc i) vs = Inr rows'"
    by (auto split: sum.splits)
  from mid have m: "mid = rows @ [fee_output_row hash raw receiver tx now i v]"
    by (simp add: execOne_insert_def split: if_splits)
  from insert_outputs_forward[OF rest] have fw: "rows_forward mid rows'" .
  then have len: "length mid \<le> length rows'" by (simp add: rows_forward_def)
  have "insert_outputs mid hash raw receiver tx now k ws = Inr out \<Longrightarrow>
      n < length mid \<Longrightarrow> out ! n = mid ! n" for k ws out n mid
  proof (induction ws arbitrary: mid k)
    case Nil
    then show ?case by simp
  next
    case (Cons w ws)
    from Cons.prems(1) obtain nxt where
      nxt: "execOne_insert mid (fee_output_row hash raw receiver tx now k w) = Inr nxt"
      and rest': "insert_outputs nxt hash raw receiver tx now (Suc k) ws = Inr out"
      by (auto split: sum.splits)
    from nxt have n: "nxt = mid @ [fee_output_row hash raw receiver tx now k w]"
      by (simp add: execOne_insert_def split: if_splits)
    with Cons.prems(2) have "n < length nxt" by simp
    from Cons.IH[OF rest' this] n Cons.prems(2) show ?case by (simp add: nth_append)
  qed
  from this[OF rest, of "length rows"] m
  have "rows' ! length rows = fee_output_row hash raw receiver tx now i v" by simp
  with len m show ?thesis by simp
qed

lemma WriteBitcoinFeeOutput_first_output:
  assumes "returned (WriteBitcoinFeeOutput s now msgTx receiver tx) = Some None"
    and "mt_TxOut msgTx = v # vs"
  shows "length (os_outputs s)
           < length (os_outputs (final_store (WriteBitcoinFeeOutput s now msgTx receiver tx)))
     \<and> (\<exists>raw. mt_Raw msgTx = Some raw \<and>
          os_outputs (final_store (WriteBitcoinFeeOutput s now msgTx receiver tx)) ! length (os_outputs s)
            = fee_output_row (mt_TxHash msgTx) raw receiver tx now 0 v)"
proof -
  from assms(1) obtain raw rows rows' where
    raw: "mt_Raw msgTx = Some raw"
    and sp: "spend_inputs (os_outputs s) (mt_TxHash msgTx) now (mt_TxIn msgTx) = Inr rows"
    and ins: "insert_outputs rows (mt_TxHash msgTx) raw receiver tx now 0 (mt_TxOut msgTx) = Inr rows'"
    and fin: "final_store (WriteBitcoinFeeOutput s now msgTx receiver tx) = s\<lparr>os_outputs := rows'\<rparr>"
    by (auto simp: WriteBitcoinFeeOutput_def split: if_splits option.splits sum.splits)
  from insert_outputs_first[OF ins[unfolded assms(2)]] spend_inputs_length[OF sp] raw fin
  show ?thesis by simp
qed

lemma fee_output_row_first:
  "out_State (fee_output_row hash raw receiver tx now 0 v) = RequestStateDone \<and>
   out_SpentBy (fee_output_row hash raw receiver tx now 0 v) = Some (tx_TransactionHash tx) \<and>
   out_TransactionHash (fee_output_row hash raw receiver tx now 0 v) = hash \<and>
   out_Index (fee_output_row hash raw receiver tx now 0 v) = 0"
  by (simp add: fee_output_row_def)
subsection \<open>Claims on the Bitcoin outputs\<close>

text \<open>
  C2, as the claim states it, fails: \<open>SpentBy\<close> would be set only in the update that
  moves a row from \<open>Initial\<close> to \<open>Done\<close>. \<open>WriteBitcoinFeeOutput\<close> inserts the first
  output of a fee transaction with the state \<open>Done\<close> and \<open>SpentBy\<close> already set: the
  row \<open>(fee1, 0)\<close> is not in the store before the call, and after it the row is there,
  \<open>Done\<close> and spent by \<open>t1\<close>, without ever having been \<open>Initial\<close>.
\<close>

theorem C2_fee_output_is_born_assigned:
  "\<not> list_ex (same_key ''fee1'' 0) (os_outputs example_outputs)
   \<and> returned (WriteBitcoinFeeOutput example_outputs 9 example_fee_tx ''accountant''
        (example_transaction ''t1'')) = Some None
   \<and> same_key ''fee1'' 0 (os_outputs (final_store (WriteBitcoinFeeOutput example_outputs 9
        example_fee_tx ''accountant'' (example_transaction ''t1''))) ! 1)
   \<and> out_State (os_outputs (final_store (WriteBitcoinFeeOutput example_outputs 9
        example_fee_tx ''accountant'' (example_transaction ''t1''))) ! 1) = RequestStateDone
   \<and> out_SpentBy (os_outputs (final_store (WriteBitcoinFeeOutput example_outputs 9
        example_fee_tx ''accountant'' (example_transaction ''t1''))) ! 1) = Some ''t1''"
  by code_simp

text \<open>
  C2, amended. Over every run of the writers of \<open>bitcoin_outputs\<close>
  (\<open>WriteBitcoinUTXOIfNotExists\<close>, \<open>AssignBitcoinUTXOByRangeForTransaction\<close>,
  \<open>WriteBitcoinFeeOutput\<close>), every row of the store stays at its place and is either
  as it was, or was \<open>Initial\<close> with \<open>SpentBy\<close> \<open>NULL\<close> and is now \<open>Done\<close> with
  \<open>SpentBy\<close> set, both written by the one guarded update; a row whose \<open>SpentBy\<close> is
  set never changes again, so no output is ever given to a second transaction. Besides
  that update, \<open>SpentBy\<close> is set when \<open>WriteBitcoinFeeOutput\<close> inserts the first output
  of a fee transaction, which is born \<open>Done\<close> and spent by the transaction the fee is
  for.
\<close>

theorem C2_assignment_is_one_way:
  "(n < length (os_outputs s) \<longrightarrow>
      n < length (os_outputs (run_writes s ws)) \<and>
      assigned_forward (os_outputs s ! n) (os_outputs (run_writes s ws) ! n) \<and>
      (out_SpentBy (os_outputs s ! n) \<noteq> None \<longrightarrow>
         os_outputs (run_writes s ws) ! n = os_outputs s ! n))
   \<and> (returned (WriteBitcoinFeeOutput s now msgTx receiver tx) = Some None \<and>
       mt_TxOut msgTx = v # vs \<longrightarrow>
         length (os_outputs s)
           < length (os_outputs (final_store (WriteBitcoinFeeOutput s now msgTx receiver tx))) \<and>
         same_key (mt_TxHash msgTx) 0
           (os_outputs (final_store (WriteBitcoinFeeOutput s now msgTx receiver tx))
              ! length (os_outputs s)) \<and>
         out_State (os_outputs (final_store (WriteBitcoinFeeOutput s now msgTx receiver tx))
              ! length (os_outputs s)) = RequestStateDone \<and>
         out_SpentBy (os_outputs (final_store (WriteBitcoinFeeOutput s now msgTx receiver tx))
              ! length (os_outputs s)) = Some (tx_TransactionHash tx))"
proof (intro conjI impI)
  assume n: "n < length (os_outputs s)"
  from run_writes_forward[of s ws]
  have len: "length (os_outputs s) \<le> length (os_outputs (run_writes s ws))"
    and fw: "assigned_forward (os_outputs s ! n) (os_outputs (run_writes s ws) ! n)"
    using n by (simp_all add: rows_forward_def)
  from len n show "n < length (os_outputs (run_writes s ws))" by simp
  from fw show "assigned_forward (os_outputs s ! n) (os_outputs (run_writes s ws) ! n)" .
  assume "out_SpentBy (os_outputs s ! n) \<noteq> None"
  then obtain b where "out_SpentBy (os_outputs s ! n) = Some b" by auto
  from assigned_forward_kept[OF fw this]
  show "os_outputs (run_writes s ws) ! n = os_outputs s ! n" .
next
  let ?s' = "final_store (WriteBitcoinFeeOutput s now msgTx receiver tx)"
  assume a: "returned (WriteBitcoinFeeOutput s now msgTx receiver tx) = Some None \<and>
       mt_TxOut msgTx = v # vs"
  then have r: "returned (WriteBitcoinFeeOutput s now msgTx receiver tx) = Some None"
    and o: "mt_TxOut msgTx = v # vs" by blast+
  from WriteBitcoinFeeOutput_first_output[OF r o] obtain raw where
    len: "length (os_outputs s) < length (os_outputs ?s')"
    and row: "os_outputs ?s' ! length (os_outputs s)
                = fee_output_row (mt_TxHash msgTx) raw receiver tx now 0 v"
    by blast
  from len show "length (os_outputs s) < length (os_outputs ?s')" .
  from row fee_output_row_first[of "mt_TxHash msgTx" raw receiver tx now v]
  show "same_key (mt_TxHash msgTx) 0 (os_outputs ?s' ! length (os_outputs s))"
    and "out_State (os_outputs ?s' ! length (os_outputs s)) = RequestStateDone"
    and "out_SpentBy (os_outputs ?s' ! length (os_outputs s)) = Some (tx_TransactionHash tx)"
    by (simp_all add: same_key_def)
qed

theorem C2_assignment_is_one_way_witness:
  "0 < length (os_outputs example_outputs)
   \<and> out_SpentBy (os_outputs (write_outputs example_outputs
         (AssignByRange 5 40000 60000 (example_transaction ''t1''))) ! 0) = Some ''t1''
   \<and> os_outputs (run_writes (write_outputs example_outputs
         (AssignByRange 5 40000 60000 (example_transaction ''t1'')))
         [AssignByRange 6 40000 60000 (example_transaction ''t2''),
          WriteFeeOutput 9 example_fee_tx ''accountant'' (example_transaction ''t3'')]) ! 0
       = os_outputs (write_outputs example_outputs
         (AssignByRange 5 40000 60000 (example_transaction ''t1''))) ! 0
   \<and> assigned_forward (os_outputs example_outputs ! 0)
        (os_outputs (run_writes example_outputs
           [AssignByRange 5 40000 60000 (example_transaction ''t1'')]) ! 0)
   \<and> out_SpentBy (os_outputs (final_store (WriteBitcoinFeeOutput example_outputs 9
        example_fee_tx ''accountant'' (example_transaction ''t1'')))
          ! length (os_outputs example_outputs)) = Some (tx_TransactionHash (example_transaction ''t1''))"
proof -
  let ?s1 = "write_outputs example_outputs (AssignByRange 5 40000 60000 (example_transaction ''t1''))"
  let ?ws = "[AssignByRange 6 40000 60000 (example_transaction ''t2''),
          WriteFeeOutput 9 example_fee_tx ''accountant'' (example_transaction ''t3'')]"
  have h0: "0 < length (os_outputs example_outputs)" by code_simp
  have h1: "0 < length (os_outputs ?s1)" by code_simp
  have h2: "out_SpentBy (os_outputs ?s1 ! 0) = Some ''t1''" by code_simp
  then have h2': "out_SpentBy (os_outputs ?s1 ! 0) \<noteq> None" by simp
  have h3: "returned (WriteBitcoinFeeOutput example_outputs 9 example_fee_tx ''accountant''
        (example_transaction ''t1'')) = Some None \<and> mt_TxOut example_fee_tx = 1000 # [48000]"
    by code_simp
  from C2_assignment_is_one_way[of 0 "?s1" "?ws"] h1 h2'
  have a: "os_outputs (run_writes ?s1 ?ws) ! 0 = os_outputs ?s1 ! 0"
    by blast
  from C2_assignment_is_one_way[of 0 example_outputs
      "[AssignByRange 5 40000 60000 (example_transaction ''t1'')]" 9 example_fee_tx
      "''accountant''" "example_transaction ''t1''" 1000 "[48000]"] h0 h3
  have c: "assigned_forward (os_outputs example_outputs ! 0)
        (os_outputs (run_writes example_outputs
           [AssignByRange 5 40000 60000 (example_transaction ''t1'')]) ! 0)"
    and b: "out_SpentBy (os_outputs (final_store (WriteBitcoinFeeOutput example_outputs 9
        example_fee_tx ''accountant'' (example_transaction ''t1'')))
          ! length (os_outputs example_outputs)) = Some (tx_TransactionHash (example_transaction ''t1''))"
    by blast+
  from h0 h2 a b c show ?thesis by blast
qed

text \<open>
  C10. \<open>WriteBitcoinUTXOIfNotExists\<close> is first-write-wins: when a row with the key
  \<open>(transaction_hash, output_index)\<close> of the new output is in the store, the call
  returns \<open>nil\<close> and the store is unchanged, whatever the address, value, script or
  chain of the new output; it panics on an output whose state is not \<open>Initial\<close>; and
  a call that returns leaves the rows as they were or adds the output, \<open>Initial\<close>, at
  the end.
\<close>

theorem C10_first_write_wins:
  "(\<not> os_down s \<and> out_State utxo = RequestStateInitial \<and>
    (\<exists>row \<in> set (os_outputs s).
        out_TransactionHash row = out_TransactionHash utxo \<and> out_Index row = out_Index utxo)
      \<longrightarrow> WriteBitcoinUTXOIfNotExists s utxo = Returned None s)
   \<and> (\<not> os_down s \<and> out_State utxo \<noteq> RequestStateInitial
      \<longrightarrow> WriteBitcoinUTXOIfNotExists s utxo = Panicked s)
   \<and> (WriteBitcoinUTXOIfNotExists s utxo = Returned e s'
      \<longrightarrow> s' = s \<or> (e = None \<and> s' = s\<lparr>os_outputs := os_outputs s @ [utxo]\<rparr> \<and>
                     out_State utxo = RequestStateInitial))"
proof (intro conjI impI)
  assume "\<not> os_down s \<and> out_State utxo = RequestStateInitial \<and>
    (\<exists>row \<in> set (os_outputs s).
        out_TransactionHash row = out_TransactionHash utxo \<and> out_Index row = out_Index utxo)"
  then show "WriteBitcoinUTXOIfNotExists s utxo = Returned None s"
    by (auto simp: WriteBitcoinUTXOIfNotExists_def checkExistence_def same_key_def list_ex_iff)
next
  assume "\<not> os_down s \<and> out_State utxo \<noteq> RequestStateInitial"
  then show "WriteBitcoinUTXOIfNotExists s utxo = Panicked s"
    by (simp add: WriteBitcoinUTXOIfNotExists_def)
next
  assume "WriteBitcoinUTXOIfNotExists s utxo = Returned e s'"
  then show "s' = s \<or> (e = None \<and> s' = s\<lparr>os_outputs := os_outputs s @ [utxo]\<rparr> \<and>
                     out_State utxo = RequestStateInitial)"
    by (auto simp: WriteBitcoinUTXOIfNotExists_def execOne_insert_def
        split: if_splits sum.splits)
qed

theorem C10_first_write_wins_witness:
  "WriteBitcoinUTXOIfNotExists example_outputs
      (example_utxo\<lparr>out_Address := ''other'', out_Satoshi := 7, out_Chain := 5\<rparr>)
     = Returned None example_outputs
   \<and> WriteBitcoinUTXOIfNotExists example_outputs (example_utxo\<lparr>out_State := RequestStateDone\<rparr>)
     = Panicked example_outputs
   \<and> (final_store (WriteBitcoinUTXOIfNotExists example_outputs
          (example_utxo\<lparr>out_Index := 1\<rparr>)) = example_outputs
      \<or> final_store (WriteBitcoinUTXOIfNotExists example_outputs (example_utxo\<lparr>out_Index := 1\<rparr>))
          = example_outputs\<lparr>os_outputs := os_outputs example_outputs
               @ [example_utxo\<lparr>out_Index := 1\<rparr>]\<rparr>)"
proof -
  let ?u = "example_utxo\<lparr>out_Address := ''other'', out_Satoshi := 7, out_Chain := 5\<rparr>"
  let ?d = "example_utxo\<lparr>out_State := RequestStateDone\<rparr>"
  let ?n = "example_utxo\<lparr>out_Index := 1\<rparr>"
  have h1: "\<not> os_down example_outputs \<and> out_State ?u = RequestStateInitial \<and>
    (\<exists>row \<in> set (os_outputs example_outputs).
        out_TransactionHash row = out_TransactionHash ?u \<and> out_Index row = out_Index ?u)"
    by (simp add: example_outputs_def example_utxo_def)
  have h2: "\<not> os_down example_outputs \<and> out_State ?d \<noteq> RequestStateInitial"
    by (simp add: example_outputs_def example_utxo_def RequestStateDone_def RequestStateInitial_def)
  define s' where "s' = example_outputs\<lparr>os_outputs := os_outputs example_outputs @ [?n]\<rparr>"
  have h3: "WriteBitcoinUTXOIfNotExists example_outputs ?n = Returned None s'"
    by (simp add: WriteBitcoinUTXOIfNotExists_def checkExistence_def execOne_insert_def
        same_key_def example_outputs_def example_utxo_def s'_def)
  from C10_first_write_wins[of example_outputs "?u" None s'] h1
  have a: "WriteBitcoinUTXOIfNotExists example_outputs ?u = Returned None example_outputs"
    by blast
  from C10_first_write_wins[of example_outputs "?d" None s'] h2
  have b: "WriteBitcoinUTXOIfNotExists example_outputs ?d = Panicked example_outputs"
    by blast
  from C10_first_write_wins[of example_outputs "?n" None s'] h3
  have "s' = example_outputs \<or> s' = example_outputs\<lparr>os_outputs := os_outputs example_outputs @ [?n]\<rparr>"
    by blast
  with h3 have c: "final_store (WriteBitcoinUTXOIfNotExists example_outputs ?n) = example_outputs
      \<or> final_store (WriteBitcoinUTXOIfNotExists example_outputs ?n)
          = example_outputs\<lparr>os_outputs := os_outputs example_outputs @ [?n]\<rparr>"
    by simp
  from a b c show ?thesis by blast
qed
subsection \<open>Broadcast\<close>

text \<open>
  The \<open>bitcoinBroadcastTransaction\<close> with the chain parameter: an error of the node that
  says the transaction is already in the block chain is success, any other error is
  returned, and an id that differs from the hash is the malformed-transaction error.
\<close>

lemma bitcoinBroadcastTransaction_already_in_block_chain:
  assumes "observer_bitcoinParams env chain = Some rpc"
    and "RPCSendRawTransaction env rpc (EncodeToString raw) = Inl err"
    and "strings_Contains err ''Transaction already in block chain''"
  shows "returned (bitcoinBroadcastTransaction env node hash raw chain) = Some None"
  using assms by (simp add: bitcoinBroadcastTransaction_def Let_def)

lemma bitcoinBroadcastTransaction_malformed:
  assumes "observer_bitcoinParams env chain = Some rpc"
    and "RPCSendRawTransaction env rpc (EncodeToString raw) = Inr txid"
    and "txid \<noteq> hash"
  shows "returned (bitcoinBroadcastTransaction env node hash raw chain) =
           Some (Some (MalformedTransaction hash txid))"
  using assms by (simp add: bitcoinBroadcastTransaction_def Let_def)

lemma bitcoinBroadcastTransaction_hash_raw_malformed:
  assumes "RPCSendRawTransaction env BitcoinRPC (EncodeToString raw) = Inr txid"
    and "txid \<noteq> hash"
  shows "returned (bitcoinBroadcastTransaction_hash_raw env node hash raw) =
           Some (Some (MalformedTransaction hash txid))"
  using assms by (simp add: bitcoinBroadcastTransaction_hash_raw_def Let_def)

lemma bitcoinBroadcastTransaction_hash_raw_error:
  assumes "RPCSendRawTransaction env BitcoinRPC (EncodeToString raw) = Inl err"
  shows "returned (bitcoinBroadcastTransaction_hash_raw env node hash raw) =
           Some (Some (RPCError err))"
  using assms by (simp add: bitcoinBroadcastTransaction_hash_raw_def Let_def)

text \<open>
  C9. The claim: for every broadcast attempt, \<open>bitcoinBroadcastTransaction\<close> returns
  success when \<open>RPCSendRawTransaction\<close> reports that the transaction is already in the
  block chain, and the malformed-transaction error whenever the returned id differs
  from the hash. The function with the chain parameter does both
  (\<open>bitcoinBroadcastTransaction_already_in_block_chain\<close>,
  \<open>bitcoinBroadcastTransaction_malformed\<close>). The function with the parameters
  \<open>(hash, raw)\<close> returns every error of the node: when the node answers
  \<open>-27: Transaction already in block chain\<close> it returns that error, where the function
  with the chain parameter returns \<open>nil\<close>.
\<close>

theorem C9_hash_raw_returns_already_in_block_chain_error:
  "returned (bitcoinBroadcastTransaction_hash_raw
       (example_observer_env [] (Inl ''-27: Transaction already in block chain''))
       example_node ''t1'' [2, 0]) =
     Some (Some (RPCError ''-27: Transaction already in block chain''))
   \<and> returned (bitcoinBroadcastTransaction
       (example_observer_env [] (Inl ''-27: Transaction already in block chain''))
       example_node ''t1'' [2, 0] 1) = Some None
   \<and> strings_Contains ''-27: Transaction already in block chain''
        ''Transaction already in block chain''"
  by code_simp

subsection \<open>Ethereum signatures\<close>

lemma FinishTransactionSignatures_state:
  "FinishTransactionSignatures s h raw = Inr s' \<Longrightarrow>
   map_option tx_State (os_transactions s' h) = Some RequestStateDone"
  by (auto simp: FinishTransactionSignatures_def split: if_splits option.splits)

lemma UpdateRecoveryState_transactions:
  "UpdateRecoveryState s a raw st = Inr s' \<Longrightarrow> os_transactions s' = os_transactions s"
  by (auto simp: UpdateRecoveryState_def split: if_splits option.splits)

text \<open>
  What \<open>keeperVerifyEthereumTransactionSignatures\<close> does: it panics, or returns with the
  node as it was, or it has counted at least two signatures among the holder, the
  observer and the signer of the safe and has updated the recovery, and then, when it
  returns no error, the transaction is \<open>Done\<close>.
\<close>

lemma keeperVerifyEthereumTransactionSignatures_alternatives:
  assumes "keeperVerifyEthereumTransactionSignatures env node extra = out"
  shows "out = Panicked node \<or> (\<exists>e. out = Returned e node) \<or>
     (\<exists>st tx safe s1.
        UnmarshalSafeTransaction env extra = Some st \<and>
        os_transactions (on_store node) (st_TxHash st) = Some tx \<and>
        tx_State tx < RequestStateDone \<and>
        kt_safes (on_keeper node) (tx_Holder tx) = Some safe \<and>
        2 \<le> count_signed env (st_Raw st) [safe_Holder safe, safe_Observer safe, safe_Signer safe] \<and>
        UpdateRecoveryState (on_store node) (safe_Address safe) [] RequestStateDone = Inr s1 \<and>
        ((\<exists>e. out = Returned (Some e) (node\<lparr>on_store := s1\<rparr>)) \<or>
         (\<exists>s2. FinishTransactionSignatures s1 (st_TxHash st) (st_Raw st) = Inr s2 \<and>
               out = Returned None (node\<lparr>on_store := s2\<rparr>))))"
  using assms
  by (auto simp: keeperVerifyEthereumTransactionSignatures_def Let_def ReadTransactionApproval_def
      ReadSafe_def not_le
      split: if_splits option.splits sum.splits)

text \<open>With fewer than two signatures the error is returned and the node is as it was.\<close>

lemma keeperVerifyEthereumTransactionSignatures_insufficient:
  assumes "UnmarshalSafeTransaction env extra = Some st"
    and "\<not> os_down (on_store node)"
    and "os_transactions (on_store node) (st_TxHash st) = Some tx"
    and "tx_State tx < RequestStateDone"
    and "\<not> kt_down (on_keeper node)"
    and "kt_safes (on_keeper node) (tx_Holder tx) = Some safe"
    and "safe_Chain safe = oe_SafeChainEthereum env \<or> safe_Chain safe = oe_SafeChainPolygon env"
    and "count_signed env (st_Raw st) [safe_Holder safe, safe_Observer safe, safe_Signer safe] = n"
    and "n < 2"
  shows "keeperVerifyEthereumTransactionSignatures env node extra =
           Returned (Some (InsufficientSignatures n)) node"
  using assms
  by (auto simp: keeperVerifyEthereumTransactionSignatures_def Let_def ReadTransactionApproval_def
      ReadSafe_def)

text \<open>
  C1. The claim: the observer finalizes an Ethereum transaction only if at least two of
  the holder, the signer and the observer of the safe have signed it and the observer is
  one of them; otherwise it returns the insufficient-signatures error and leaves the
  stored transaction as it was. \<open>keeperVerifyEthereumTransactionSignatures\<close> counts the
  signatures and compares the count with 2
  (\<open>keeperVerifyEthereumTransactionSignatures_alternatives\<close>,
  \<open>keeperVerifyEthereumTransactionSignatures_insufficient\<close>); it does not ask whose they
  are. On a transaction that the holder and the signer have signed and the observer has
  not, it counts 2, returns no error, and the transaction, \<open>Initial\<close> before, is
  \<open>Done\<close> with the raw transaction stored. With the holder's signature alone the
  error is returned and the transaction stays \<open>Initial\<close>.
\<close>

theorem C1_finalized_without_the_observer:
  "\<not> CheckTransactionPartiallySignedBy (example_observer_env [''holder'', ''signer''] (Inr []))
        ''f8aa'' (safe_Observer example_safe)
   \<and> map_option tx_State (os_transactions (on_store example_node) ''0xt1'') =
        Some RequestStateInitial
   \<and> returned (keeperVerifyEthereumTransactionSignatures
        (example_observer_env [''holder'', ''signer''] (Inr [])) example_node []) = Some None
   \<and> map_option tx_State (os_transactions (on_store (final_store
        (keeperVerifyEthereumTransactionSignatures
           (example_observer_env [''holder'', ''signer''] (Inr [])) example_node []))) ''0xt1'') =
        Some RequestStateDone
   \<and> map_option tx_RawTransaction (os_transactions (on_store (final_store
        (keeperVerifyEthereumTransactionSignatures
           (example_observer_env [''holder'', ''signer''] (Inr [])) example_node []))) ''0xt1'') =
        Some ''f8aa''
   \<and> returned (keeperVerifyEthereumTransactionSignatures
        (example_observer_env [''holder''] (Inr [])) example_node []) =
        Some (Some (InsufficientSignatures 1))
   \<and> map_option tx_State (os_transactions (on_store (final_store
        (keeperVerifyEthereumTransactionSignatures
           (example_observer_env [''holder''] (Inr [])) example_node []))) ''0xt1'') =
        Some RequestStateInitial"
  by code_simp

subsection \<open>Combining signatures: what a loop leaves alone\<close>





lemma partial_sigs_match_cong:
  assumes "psbt_Inputs sp' = psbt_Inputs sp"
    and "length (psbt_Inputs hp') = length (psbt_Inputs hp)"
    and "psbt_Inputs hp' ! idx = psbt_Inputs hp ! idx"
  shows "partial_sigs_match sp' hp' holder signer responses idx =
         partial_sigs_match sp hp holder signer responses idx"
  using assms by (simp add: partial_sigs_match_def)




subsection \<open>Combining signatures: \<open>bitcoinAccountantSignTransaction\<close>\<close>













subsection \<open>Combining signatures: \<open>keeperCombineBitcoinTransactionSignatures\<close>\<close>












subsection \<open>Claim on the combination of signatures\<close>




subsection \<open>Replayed outputs\<close>








subsection \<open>Revoking a transaction\<close>




end
